theory Spec2Isabelle
  imports Main
begin

section \<open>SmartAlloc: data model\<close>

text \<open>
  The server keeps two MongoDB collections that matter here, \<open>resources\<close> and
  \<open>allocations\<close>. Documents are records; a collection is the list of its documents
  in insertion order. An ObjectId is a natural number, an instant (a JavaScript \<open>Date\<close>
  that is not the Invalid Date) is its number of milliseconds since the epoch.
  The enumerations of the schemas (\<open>approvalStatus\<close>, \<open>role\<close>) and the status labels the
  controllers compute are datatypes.
\<close>

type_synonym oid = nat
type_synonym instant = int

datatype approval = Pending | Approved | Rejected

datatype role = SuperUser | StandardUser

datatype time_status = Upcoming | Active | Completed

datatype resource_status = Allocated | Available

record resource =
  rid :: oid
  rname :: string
  rtype :: string
  rdescription :: string
  rcreatedAt :: instant

record allocation =
  aid :: oid
  resourceId :: oid
  assignedTo :: string
  startTime :: instant
  endTime :: instant
  purpose :: string
  createdAt :: instant
  approvalStatus :: approval
  requestedBy :: "oid option"

record user =
  uid :: oid
  urole :: role

record store =
  resources :: "resource list"
  allocations :: "allocation list"

text \<open>
  The body of \<open>POST /api/allocations\<close>. A field is \<open>None\<close> when the request carries
  no value for it or a falsy one (\<open>undefined\<close>, \<open>null\<close>, \<open>0\<close>); for \<open>assignedTo\<close> the
  empty string is falsy as well. A time field that is present holds the instant that
  \<open>new Date(...)\<close> makes of it. Identifiers and dates that do not parse (the cast
  errors of Mongoose) are not part of the model, and neither is the authorisation that
  the routes put in front of the controllers.
\<close>

record alloc_body =
  b_resourceId :: "oid option"
  b_assignedTo :: "string option"
  b_startTime :: "instant option"
  b_endTime :: "instant option"
  b_purpose :: "string option"

text \<open>
  The projection of an allocation that the controllers show to a caller: who holds the
  resource, when, and what for.
\<close>

record occupant =
  o_assignedTo :: string
  o_startTime :: instant
  o_endTime :: instant
  o_purpose :: string

text \<open>
  What \<open>res.status(c).json({...})\<close> sends: the HTTP status code, the \<open>success\<close> flag,
  the \<open>message\<close> and whatever else the JSON object carries.
\<close>

datatype payload =
    NoPayload
  | Data allocation
  | ConflictDetails string "occupant list"
  | Errors "string list"
  | ErrorText string

record reply =
  status_code :: nat
  success :: bool
  message :: string
  payload :: payload

record resource_view =
  v_resource :: resource
  v_status :: resource_status
  v_currentAllocation :: "occupant option"

section \<open>The Allocation model (schema, hooks, queries)\<close>

text \<open>
  String fields of the schema are declared \<open>trim: true\<close>: the setter removes white
  space at both ends when the document is built.
\<close>

definition is_ws :: "char \<Rightarrow> bool" where
  "is_ws c = (c \<in> set [CHR 0x09, CHR 0x0A, CHR 0x0B, CHR 0x0C, CHR 0x0D, CHR 0x20, CHR 0xA0])"

definition trim :: "string \<Rightarrow> string" where
  "trim s = rev (dropWhile is_ws (rev (dropWhile is_ws s)))"

text \<open>
  The validators of the schema, in the order of its paths: \<open>assignedTo\<close> is required
  (a string is present when it is not empty) and has at most 100 characters,
  \<open>purpose\<close> has at most 300.
\<close>

definition validation_errors :: "allocation \<Rightarrow> string list" where
  "validation_errors d =
     (if assignedTo d = [] then [''Assigned To field is required''] else []) @
     (if length (assignedTo d) > 100 then [''Assigned To cannot exceed 100 characters''] else []) @
     (if length (purpose d) > 300 then [''Purpose cannot exceed 300 characters''] else [])"

text \<open>\<open>allocationSchema.pre('save')\<close>: the result is the error handed to \<open>next\<close>, if any.\<close>

definition pre_save :: "allocation \<Rightarrow> string option" where
  "pre_save d =
     (if endTime d \<le> startTime d then Some ''End time must be after start time''
      else None)"

text \<open>
  What \<open>save()\<close> throws before it writes: a \<open>ValidationError\<close> of the schema's
  validators, or else the error of the pre-save hook.
\<close>

datatype save_error = ValidationError "string list" | HookError string

definition save_checks :: "allocation \<Rightarrow> save_error option" where
  "save_checks d =
     (if validation_errors d \<noteq> [] then Some (ValidationError (validation_errors d))
      else case pre_save d of
             Some m \<Rightarrow> Some (HookError m)
           | None \<Rightarrow> None)"

text \<open>Writing an existing document replaces the first document with its \<open>_id\<close>.\<close>

fun updateOne :: "allocation \<Rightarrow> allocation list \<Rightarrow> allocation list" where
  "updateOne d [] = []"
| "updateOne d (a # as) = (if aid a = aid d then d # as else a # updateOne d as)"

fun deleteOne :: "oid \<Rightarrow> allocation list \<Rightarrow> allocation list" where
  "deleteOne i [] = []"
| "deleteOne i (a # as) = (if aid a = i then as else a # deleteOne i as)"

definition Allocation_findById :: "store \<Rightarrow> oid \<Rightarrow> allocation option" where
  "Allocation_findById s i = find (\<lambda>a. aid a = i) (allocations s)"

definition Resource_findById :: "store \<Rightarrow> oid \<Rightarrow> resource option" where
  "Resource_findById s i = find (\<lambda>r. rid r = i) (resources s)"

text \<open>
  A new document gets an ObjectId that no stored document has: here the successor of
  the largest stored one.
\<close>

definition fresh_oid :: "allocation list \<Rightarrow> oid" where
  "fresh_oid as = Suc (foldr (\<lambda>a m. max (aid a) m) as 0)"

text \<open>The virtual \<open>timeStatus\<close> of the model, with the clock reading as an argument.\<close>

definition timeStatus :: "instant \<Rightarrow> allocation \<Rightarrow> time_status" where
  "timeStatus now a =
     (if now < startTime a then Upcoming
      else if now \<ge> startTime a \<and> now \<le> endTime a then Active
      else Completed)"

section \<open>The allocation controller\<close>

definition respond :: "nat \<Rightarrow> bool \<Rightarrow> string \<Rightarrow> payload \<Rightarrow> reply" where
  "respond c ok m p = \<lparr>status_code = c, success = ok, message = m, payload = p\<rparr>"

definition occupant_of :: "allocation \<Rightarrow> occupant" where
  "occupant_of alloc =
     \<lparr>o_assignedTo = assignedTo alloc, o_startTime = startTime alloc,
      o_endTime = endTime alloc, o_purpose = purpose alloc\<rparr>"

text \<open>
  The query of STEP 5 of \<open>createAllocation\<close>: the approved allocations of the resource
  that start before the new end and end after the new start.
\<close>

definition conflictingAllocations ::
  "store \<Rightarrow> oid \<Rightarrow> instant \<Rightarrow> instant \<Rightarrow> allocation list" where
  "conflictingAllocations s resId newStartTime newEndTime =
     filter (\<lambda>x. resourceId x = resId \<and> approvalStatus x = Approved \<and>
                 startTime x < newEndTime \<and> endTime x > newStartTime)
            (allocations s)"

text \<open>The query of \<open>updateAllocationStatus\<close>: the same one, without the allocation itself.\<close>

definition conflicts :: "store \<Rightarrow> oid \<Rightarrow> allocation \<Rightarrow> allocation list" where
  "conflicts s i allocation =
     filter (\<lambda>x. aid x \<noteq> i \<and> resourceId x = resourceId allocation \<and>
                 approvalStatus x = Approved \<and>
                 startTime x < endTime allocation \<and> endTime x > startTime allocation)
            (allocations s)"

definition isAdmin :: "user option \<Rightarrow> bool" where
  "isAdmin req_user = (case req_user of None \<Rightarrow> False | Some u \<Rightarrow> urole u = SuperUser)"

text \<open>
  The document that STEP 6 of \<open>createAllocation\<close> builds with \<open>new Allocation({...})\<close>:
  the creator's role decides the approval status, the string setters trim, \<open>purpose\<close>
  falls back to the empty string, \<open>createdAt\<close> defaults to the clock reading.
\<close>

definition newAllocation ::
  "store \<Rightarrow> instant \<Rightarrow> user option \<Rightarrow> alloc_body \<Rightarrow> allocation" where
  "newAllocation s currentTime req_user body =
     \<lparr>aid = fresh_oid (allocations s),
      resourceId = the (b_resourceId body),
      assignedTo = trim (the (b_assignedTo body)),
      startTime = the (b_startTime body),
      endTime = the (b_endTime body),
      purpose = trim (case b_purpose body of None \<Rightarrow> [] | Some p \<Rightarrow> p),
      createdAt = currentTime,
      approvalStatus = (if isAdmin req_user then Approved else Pending),
      requestedBy = (case req_user of None \<Rightarrow> None | Some u \<Rightarrow> Some (uid u))\<rparr>"

text \<open>
  \<open>createAllocation\<close>, with the store, the clock reading and \<open>req.user\<close> as arguments;
  the result is the response and the store afterwards.
\<close>

definition createAllocation ::
  "store \<Rightarrow> instant \<Rightarrow> user option \<Rightarrow> alloc_body \<Rightarrow> reply \<times> store" where
  "createAllocation s currentTime req_user body =
     (if b_resourceId body = None \<or> b_assignedTo body = None \<or> b_assignedTo body = Some [] \<or>
         b_startTime body = None \<or> b_endTime body = None
      then (respond 400 False
              ''resourceId, assignedTo, startTime, and endTime are required fields'' NoPayload, s)
      else
        let resId = the (b_resourceId body);
            newStartTime = the (b_startTime body);
            newEndTime = the (b_endTime body)
        in
        if newEndTime \<le> newStartTime
        then (respond 400 False ''End time must be after start time'' NoPayload, s)
        else if newStartTime < currentTime
        then (respond 400 False ''Start time cannot be in the past'' NoPayload, s)
        else
          (case Resource_findById s resId of
             None \<Rightarrow> (respond 404 False ''Resource not found'' NoPayload, s)
           | Some res \<Rightarrow>
               let found = conflictingAllocations s resId newStartTime newEndTime in
               if length found > 0
               then (respond 409 False ''Resource already allocated in this time range''
                       (ConflictDetails (rname res) (map occupant_of found)), s)
               else
                 let d = newAllocation s currentTime req_user body in
                 (case save_checks d of
                    Some (ValidationError es) \<Rightarrow>
                      (respond 400 False ''Validation error'' (Errors es), s)
                  | Some (HookError m) \<Rightarrow>
                      (respond 500 False ''Failed to create allocation'' (ErrorText m), s)
                  | None \<Rightarrow>
                      (respond 201 True ''Allocation created successfully'' (Data d),
                       s\<lparr>allocations := allocations s @ [d]\<rparr>))))"

text \<open>
  \<open>updateAllocationStatus\<close>: \<open>status\<close> is the string in the body, \<open>None\<close> when the body
  has none (or a value that is no string). Whatever \<open>save()\<close> throws ends in the
  handler's 500, which passes the error's message on; of the message of a
  \<open>ValidationError\<close> only the head is kept here.
\<close>

definition save_error_text :: "save_error \<Rightarrow> string" where
  "save_error_text e = (case e of ValidationError es \<Rightarrow> ''Allocation validation failed''
                                | HookError m \<Rightarrow> m)"

definition updateAllocationStatus ::
  "store \<Rightarrow> oid \<Rightarrow> string option \<Rightarrow> reply \<times> store" where
  "updateAllocationStatus s i status =
     (if status \<noteq> Some ''approved'' \<and> status \<noteq> Some ''rejected''
      then (respond 400 False ''Status must be \"approved\" or \"rejected\"'' NoPayload, s)
      else
        (case Allocation_findById s i of
           None \<Rightarrow> (respond 404 False ''Allocation not found'' NoPayload, s)
         | Some allocation \<Rightarrow>
             if status = Some ''approved'' \<and> length (conflicts s i allocation) > 0
             then (respond 409 False
                     ''Cannot approve - conflicts with existing approved allocation'' NoPayload, s)
             else
               let allocation' =
                     allocation\<lparr>approvalStatus :=
                                  (if status = Some ''approved'' then Approved else Rejected)\<rparr>
               in
               (case save_checks allocation' of
                  Some e \<Rightarrow>
                    (respond 500 False ''Failed to update allocation status''
                       (ErrorText (save_error_text e)), s)
                | None \<Rightarrow>
                    (respond 200 True
                       (''Allocation '' @ the status @ '' successfully'') (Data allocation'),
                     s\<lparr>allocations := updateOne allocation' (allocations s)\<rparr>))))"

definition deleteAllocation :: "store \<Rightarrow> oid \<Rightarrow> reply \<times> store" where
  "deleteAllocation s i =
     (case Allocation_findById s i of
        None \<Rightarrow> (respond 404 False ''Allocation not found'' NoPayload, s)
      | Some deletedAllocation \<Rightarrow>
          (respond 200 True ''Allocation deleted successfully'' (Data deletedAllocation),
           s\<lparr>allocations := deleteOne i (allocations s)\<rparr>))"

text \<open>
  \<open>getAllAllocations\<close>: every allocation, newest start first, with the status the
  controller computes for it.
\<close>

definition getAllAllocations :: "store \<Rightarrow> instant \<Rightarrow> (allocation \<times> time_status) list" where
  "getAllAllocations s currentTime =
     map (\<lambda>allocation.
            (allocation,
             if currentTime < startTime allocation then Upcoming
             else if currentTime \<ge> startTime allocation \<and> currentTime \<le> endTime allocation
             then Active
             else Completed))
         (sort_key (\<lambda>a. - startTime a) (allocations s))"

section \<open>The resource controller\<close>

text \<open>The \<open>findOne\<close> of both read paths: the first allocation of the resource that holds now.\<close>

definition activeAllocation :: "store \<Rightarrow> oid \<Rightarrow> instant \<Rightarrow> allocation option" where
  "activeAllocation s resId currentTime =
     find (\<lambda>a. resourceId a = resId \<and> startTime a \<le> currentTime \<and> endTime a \<ge> currentTime)
          (allocations s)"

definition getAllResources :: "store \<Rightarrow> instant \<Rightarrow> resource_view list" where
  "getAllResources s currentTime =
     map (\<lambda>res.
            \<lparr>v_resource = res,
             v_status = (case activeAllocation s (rid res) currentTime of
                           Some a \<Rightarrow> Allocated | None \<Rightarrow> Available),
             v_currentAllocation = map_option occupant_of
                                     (activeAllocation s (rid res) currentTime)\<rparr>)
         (sort_key (\<lambda>r. - rcreatedAt r) (resources s))"

definition getResourceById ::
  "store \<Rightarrow> oid \<Rightarrow> instant \<Rightarrow> (resource \<times> resource_status \<times> allocation option) option" where
  "getResourceById s i currentTime =
     (case Resource_findById s i of
        None \<Rightarrow> None
      | Some res \<Rightarrow>
          Some (res,
                (case activeAllocation s (rid res) currentTime of
                   Some a \<Rightarrow> Allocated | None \<Rightarrow> Available),
                activeAllocation s (rid res) currentTime))"

section \<open>Requests in flight\<close>

text \<open>
  The handlers are \<open>async\<close> functions without a transaction: a handler gives way at every
  \<open>await\<close>, so between the \<open>await\<close> of its queries and the \<open>await\<close> of \<open>save()\<close>
  another request may read or write the collection. The two parts of a handler are
  therefore given on their own. The first part reads the store and either answers at once
  or arrives at the document that \<open>save()\<close> is to write; the checks of \<open>save()\<close> read
  nothing of the store and belong to it. The second part is the write.
\<close>

definition createAllocation_read ::
  "store \<Rightarrow> instant \<Rightarrow> user option \<Rightarrow> alloc_body \<Rightarrow> reply + allocation" where
  "createAllocation_read s currentTime req_user body =
     (if b_resourceId body = None \<or> b_assignedTo body = None \<or> b_assignedTo body = Some [] \<or>
         b_startTime body = None \<or> b_endTime body = None
      then Inl (respond 400 False
              ''resourceId, assignedTo, startTime, and endTime are required fields'' NoPayload)
      else
        let resId = the (b_resourceId body);
            newStartTime = the (b_startTime body);
            newEndTime = the (b_endTime body)
        in
        if newEndTime \<le> newStartTime
        then Inl (respond 400 False ''End time must be after start time'' NoPayload)
        else if newStartTime < currentTime
        then Inl (respond 400 False ''Start time cannot be in the past'' NoPayload)
        else
          (case Resource_findById s resId of
             None \<Rightarrow> Inl (respond 404 False ''Resource not found'' NoPayload)
           | Some res \<Rightarrow>
               let found = conflictingAllocations s resId newStartTime newEndTime in
               if length found > 0
               then Inl (respond 409 False ''Resource already allocated in this time range''
                       (ConflictDetails (rname res) (map occupant_of found)))
               else
                 let d = newAllocation s currentTime req_user body in
                 (case save_checks d of
                    Some (ValidationError es) \<Rightarrow>
                      Inl (respond 400 False ''Validation error'' (Errors es))
                  | Some (HookError m) \<Rightarrow>
                      Inl (respond 500 False ''Failed to create allocation'' (ErrorText m))
                  | None \<Rightarrow> Inr d)))"

text \<open>
  The insert of a new document. Its ObjectId differs from every stored one at the time of
  the write: the successor of the largest stored one.
\<close>

definition Allocation_insert :: "allocation \<Rightarrow> store \<Rightarrow> store" where
  "Allocation_insert d s =
     s\<lparr>allocations := allocations s @ [d\<lparr>aid := fresh_oid (allocations s)\<rparr>]\<rparr>"

definition updateAllocationStatus_read ::
  "store \<Rightarrow> oid \<Rightarrow> string option \<Rightarrow> reply + allocation" where
  "updateAllocationStatus_read s i status =
     (if status \<noteq> Some ''approved'' \<and> status \<noteq> Some ''rejected''
      then Inl (respond 400 False ''Status must be \"approved\" or \"rejected\"'' NoPayload)
      else
        (case Allocation_findById s i of
           None \<Rightarrow> Inl (respond 404 False ''Allocation not found'' NoPayload)
         | Some allocation \<Rightarrow>
             if status = Some ''approved'' \<and> length (conflicts s i allocation) > 0
             then Inl (respond 409 False
                     ''Cannot approve - conflicts with existing approved allocation'' NoPayload)
             else
               let allocation' =
                     allocation\<lparr>approvalStatus :=
                                  (if status = Some ''approved'' then Approved else Rejected)\<rparr>
               in
               (case save_checks allocation' of
                  Some e \<Rightarrow>
                    Inl (respond 500 False ''Failed to update allocation status''
                       (ErrorText (save_error_text e)))
                | None \<Rightarrow> Inr allocation')))"

text \<open>The write of an existing document.\<close>

definition Allocation_update :: "allocation \<Rightarrow> store \<Rightarrow> store" where
  "Allocation_update d s = s\<lparr>allocations := updateOne d (allocations s)\<rparr>"

section \<open>Invariants of the allocation collection\<close>

text \<open>
  Two intervals overlap when each starts before the other ends; intervals that only
  touch at a boundary do not.
\<close>

definition overlaps :: "allocation \<Rightarrow> allocation \<Rightarrow> bool" where
  "overlaps a b = (startTime a < endTime b \<and> endTime a > startTime b)"

text \<open>No two approved allocations of one resource overlap.\<close>

definition no_approved_overlap :: "allocation list \<Rightarrow> bool" where
  "no_approved_overlap as =
     (\<forall>a \<in> set as. \<forall>b \<in> set as.
        aid a \<noteq> aid b \<and> resourceId a = resourceId b \<and>
        approvalStatus a = Approved \<and> approvalStatus b = Approved \<longrightarrow> \<not> overlaps a b)"

text \<open>Every stored allocation ends after it starts.\<close>

definition valid_ranges :: "allocation list \<Rightarrow> bool" where
  "valid_ranges as = (\<forall>a \<in> set as. startTime a < endTime a)"

text \<open>An allocation holds at an instant when the instant lies between its two ends.\<close>

definition holds_at :: "instant \<Rightarrow> oid \<Rightarrow> allocation \<Rightarrow> bool" where
  "holds_at now resId a = (resourceId a = resId \<and> startTime a \<le> now \<and> now \<le> endTime a)"

section \<open>Example data\<close>

text \<open>
  One room and bookings of it; instants are written so that \<open>1000\<close> reads as 10:00.
\<close>

definition ex_room :: resource where
  "ex_room = \<lparr>rid = 5, rname = ''Room A'', rtype = ''Room'', rdescription = [], rcreatedAt = 0\<rparr>"

definition ex_alloc :: "oid \<Rightarrow> instant \<Rightarrow> instant \<Rightarrow> approval \<Rightarrow> allocation" where
  "ex_alloc i st e ap =
     \<lparr>aid = i, resourceId = 5, assignedTo = ''Alice'', startTime = st, endTime = e,
      purpose = ''Standup'', createdAt = 0, approvalStatus = ap, requestedBy = Some 7\<rparr>"

definition ex_store :: "allocation list \<Rightarrow> store" where
  "ex_store as = \<lparr>resources = [ex_room], allocations = as\<rparr>"

definition ex_body :: "oid \<Rightarrow> instant \<Rightarrow> instant \<Rightarrow> alloc_body" where
  "ex_body r st e =
     \<lparr>b_resourceId = Some r, b_assignedTo = Some ''Bob'', b_startTime = Some st,
      b_endTime = Some e, b_purpose = None\<rparr>"

definition ex_admin :: user where
  "ex_admin = \<lparr>uid = 3, urole = SuperUser\<rparr>"

definition ex_user :: user where
  "ex_user = \<lparr>uid = 7, urole = StandardUser\<rparr>"

text \<open>The document an administrator's request for the room arrives at, asked at 9:00.\<close>

definition ex_new :: "instant \<Rightarrow> instant \<Rightarrow> allocation" where
  "ex_new st e =
     \<lparr>aid = 1, resourceId = 5, assignedTo = ''Bob'', startTime = st, endTime = e,
      purpose = [], createdAt = 900, approvalStatus = Approved, requestedBy = Some 3\<rparr>"

section \<open>Auxiliary facts\<close>

lemma respond_sel [simp]:
  "status_code (respond c ok m p) = c" "success (respond c ok m p) = ok"
  "message (respond c ok m p) = m" "payload (respond c ok m p) = p"
  by (simp_all add: respond_def)

lemma save_checks_None:
  "save_checks d = None \<longleftrightarrow> validation_errors d = [] \<and> startTime d < endTime d"
  by (simp add: save_checks_def pre_save_def)

lemma newAllocation_sel [simp]:
  "aid (newAllocation s now u body) = fresh_oid (allocations s)"
  "resourceId (newAllocation s now u body) = the (b_resourceId body)"
  "startTime (newAllocation s now u body) = the (b_startTime body)"
  "endTime (newAllocation s now u body) = the (b_endTime body)"
  "approvalStatus (newAllocation s now u body) = (if isAdmin u then Approved else Pending)"
  by (simp_all add: newAllocation_def)

lemma createAllocation_rejected0:
  "status_code (fst (createAllocation s now u body)) = 201 \<or>
   snd (createAllocation s now u body) = s"
  unfolding createAllocation_def Let_def
  by (simp split: option.split save_error.split)

lemma createAllocation_rejected:
  "status_code (fst (createAllocation s now u body)) \<noteq> 201 \<Longrightarrow>
   snd (createAllocation s now u body) = s"
  using createAllocation_rejected0 [of s now u body] by blast

lemma createAllocation_created0:
  "status_code (fst (createAllocation s now u body)) \<noteq> 201 \<or>
   (createAllocation s now u body =
           (respond 201 True ''Allocation created successfully''
              (Data (newAllocation s now u body)),
            s\<lparr>allocations := allocations s @ [newAllocation s now u body]\<rparr>)
    \<and> b_resourceId body \<noteq> None \<and> b_startTime body \<noteq> None \<and> b_endTime body \<noteq> None
    \<and> the (b_startTime body) < the (b_endTime body)
    \<and> now \<le> the (b_startTime body)
    \<and> conflictingAllocations s (the (b_resourceId body)) (the (b_startTime body))
           (the (b_endTime body)) = []
    \<and> save_checks (newAllocation s now u body) = None)"
  unfolding createAllocation_def Let_def
  by (simp split: option.split save_error.split)

lemma createAllocation_created:
  assumes "status_code (fst (createAllocation s now u body)) = 201"
  shows "createAllocation s now u body =
           (respond 201 True ''Allocation created successfully''
              (Data (newAllocation s now u body)),
            s\<lparr>allocations := allocations s @ [newAllocation s now u body]\<rparr>)"
    and "the (b_startTime body) < the (b_endTime body)"
    and "now \<le> the (b_startTime body)"
    and "conflictingAllocations s (the (b_resourceId body)) (the (b_startTime body))
           (the (b_endTime body)) = []"
    and "save_checks (newAllocation s now u body) = None"
  using assms createAllocation_created0 [of s now u body] by blast+

lemma updateAllocationStatus_cases0:
  "snd (updateAllocationStatus s i st) = s \<or>
   (\<exists>a. Allocation_findById s i = Some a \<and>
        (st = Some ''approved'' \<or> st = Some ''rejected'') \<and>
        (st = Some ''approved'' \<longrightarrow> conflicts s i a = []) \<and>
        startTime a < endTime a \<and>
        snd (updateAllocationStatus s i st) =
          s\<lparr>allocations :=
               updateOne (a\<lparr>approvalStatus :=
                              (if st = Some ''approved'' then Approved else Rejected)\<rparr>)
                         (allocations s)\<rparr>)"
  unfolding updateAllocationStatus_def Let_def
  by (simp split: option.split add: save_checks_None)

lemma deleteOne_absent: "\<forall>a \<in> set xs. aid a \<noteq> i \<Longrightarrow> deleteOne i xs = xs"
  by (induction xs) auto

lemma deleteAllocation_store:
  "allocations (snd (deleteAllocation s i)) = deleteOne i (allocations s)"
proof (cases "Allocation_findById s i")
  case None
  then have "\<forall>a \<in> set (allocations s). aid a \<noteq> i"
    by (simp add: Allocation_findById_def find_None_iff)
  then have "deleteOne i (allocations s) = allocations s"
    by (rule deleteOne_absent)
  with None show ?thesis by (simp add: deleteAllocation_def)
next
  case (Some a)
  then show ?thesis by (simp add: deleteAllocation_def)
qed

lemma find_aid:
  "find (\<lambda>a. aid a = i) xs = Some a \<Longrightarrow> aid a = i \<and> a \<in> set xs"
  by (induction xs) (auto split: if_splits)

lemma set_updateOne: "set (updateOne d xs) \<subseteq> insert d (set xs)"
  by (induction xs) auto

lemma set_deleteOne: "set (deleteOne i xs) \<subseteq> set xs"
  by (induction xs) auto

lemma find_updateOne:
  "find (\<lambda>a. aid a = j) (updateOne d xs) =
     (if j = aid d \<and> (\<exists>x \<in> set xs. aid x = j) then Some d else find (\<lambda>a. aid a = j) xs)"
  by (induction xs) auto

lemma find_deleteOne_other:
  "j \<noteq> i \<Longrightarrow> find (\<lambda>a. aid a = j) (deleteOne i xs) = find (\<lambda>a. aid a = j) xs"
  by (induction xs) auto

lemma find_deleteOne_same:
  "distinct (map aid xs) \<Longrightarrow> find (\<lambda>a. aid a = i) (deleteOne i xs) = None"
proof (induction xs)
  case Nil
  then show ?case by simp
next
  case (Cons a xs)
  show ?case
  proof (cases "aid a = i")
    case True
    from Cons.prems have "aid a \<notin> aid ` set xs" by simp
    with True have "\<forall>x \<in> set xs. aid x \<noteq> i" by (metis image_eqI)
    with True show ?thesis by (simp add: find_None_iff)
  next
    case False
    with Cons show ?thesis by simp
  qed
qed

lemma find_snoc:
  "find P (xs @ [d]) = (case find P xs of Some a \<Rightarrow> Some a | None \<Rightarrow> if P d then Some d else None)"
  by (induction xs) auto

lemma ex_store_sel [simp]:
  "allocations (ex_store as) = as" "resources (ex_store as) = [ex_room]"
  by (simp_all add: ex_store_def)

lemmas ex_defs = ex_room_def ex_alloc_def ex_store_def ex_body_def ex_admin_def ex_user_def

lemmas eval_defs =
  createAllocation_def updateAllocationStatus_def deleteAllocation_def newAllocation_def
  Resource_findById_def Allocation_findById_def conflictingAllocations_def conflicts_def
  save_checks_def validation_errors_def pre_save_def trim_def is_ws_def fresh_oid_def
  isAdmin_def occupant_of_def respond_def Let_def

lemma ex_create_admin:
  "createAllocation (ex_store []) 900 (Some ex_admin) (ex_body 5 1000 1100) =
     (respond 201 True ''Allocation created successfully''
        (Data \<lparr>aid = 1, resourceId = 5, assignedTo = ''Bob'', startTime = 1000, endTime = 1100,
               purpose = [], createdAt = 900, approvalStatus = Approved, requestedBy = Some 3\<rparr>),
      ex_store [\<lparr>aid = 1, resourceId = 5, assignedTo = ''Bob'', startTime = 1000, endTime = 1100,
               purpose = [], createdAt = 900, approvalStatus = Approved, requestedBy = Some 3\<rparr>])"
  by (simp add: ex_defs eval_defs)

lemma ex_create_user:
  "createAllocation (ex_store []) 900 (Some ex_user) (ex_body 5 1000 1100) =
     (respond 201 True ''Allocation created successfully''
        (Data \<lparr>aid = 1, resourceId = 5, assignedTo = ''Bob'', startTime = 1000, endTime = 1100,
               purpose = [], createdAt = 900, approvalStatus = Pending, requestedBy = Some 7\<rparr>),
      ex_store [\<lparr>aid = 1, resourceId = 5, assignedTo = ''Bob'', startTime = 1000, endTime = 1100,
               purpose = [], createdAt = 900, approvalStatus = Pending, requestedBy = Some 7\<rparr>])"
  by (simp add: ex_defs eval_defs)

lemma valid_ranges_updateOne:
  "valid_ranges xs \<Longrightarrow> startTime d < endTime d \<Longrightarrow> valid_ranges (updateOne d xs)"
  using set_updateOne [of d xs] by (auto simp: valid_ranges_def)

lemma valid_ranges_deleteOne: "valid_ranges xs \<Longrightarrow> valid_ranges (deleteOne i xs)"
  using set_deleteOne [of i xs] by (auto simp: valid_ranges_def)

lemma createAllocation_store:
  "allocations (snd (createAllocation s now u body)) =
     (if status_code (fst (createAllocation s now u body)) = 201
      then allocations s @ [newAllocation s now u body] else allocations s)"
proof (cases "status_code (fst (createAllocation s now u body)) = 201")
  case True
  then show ?thesis using createAllocation_created(1) [OF True] by simp
next
  case False
  then show ?thesis using createAllocation_rejected [OF False] by simp
qed

lemma createAllocation_bad_range:
  "b_startTime body = Some t0 \<and> b_endTime body = Some t1 \<and> t1 \<le> t0 \<longrightarrow>
   status_code (fst (createAllocation s now u body)) = 400 \<and>
   snd (createAllocation s now u body) = s"
  by (simp add: createAllocation_def Let_def)

lemma no_approved_overlap_snoc:
  assumes "no_approved_overlap xs"
    and "approvalStatus d = Approved \<longrightarrow>
         (\<forall>x \<in> set xs. resourceId x = resourceId d \<and> approvalStatus x = Approved \<longrightarrow>
            \<not> (startTime x < endTime d \<and> endTime x > startTime d))"
  shows "no_approved_overlap (xs @ [d])"
  using assms unfolding no_approved_overlap_def overlaps_def
  by (simp add: ball_Un) metis

lemma no_approved_overlap_deleteOne:
  "no_approved_overlap xs \<Longrightarrow> no_approved_overlap (deleteOne i xs)"
  using set_deleteOne [of i xs] unfolding no_approved_overlap_def by blast

lemma no_approved_overlap_updateOne:
  assumes inv: "no_approved_overlap xs"
    and same: "aid d = aid a" "resourceId d = resourceId a"
              "startTime d = startTime a" "endTime d = endTime a"
    and free: "approvalStatus d = Approved \<longrightarrow>
         (\<forall>x \<in> set xs. aid x \<noteq> aid a \<and> resourceId x = resourceId a \<and>
                        approvalStatus x = Approved \<longrightarrow>
            \<not> (startTime x < endTime a \<and> endTime x > startTime a))"
  shows "no_approved_overlap (updateOne d xs)"
  unfolding no_approved_overlap_def
proof (intro ballI impI)
  fix x y
  assume x: "x \<in> set (updateOne d xs)" and y: "y \<in> set (updateOne d xs)"
    and h: "aid x \<noteq> aid y \<and> resourceId x = resourceId y \<and>
            approvalStatus x = Approved \<and> approvalStatus y = Approved"
  from x y set_updateOne [of d xs] have mem: "x = d \<or> x \<in> set xs" "y = d \<or> y \<in> set xs"
    by auto
  show "\<not> overlaps x y"
  proof (cases "x = d")
    case True
    with h mem have "y \<in> set xs" "aid y \<noteq> aid a" using same by auto
    with free h True same show ?thesis by (auto simp: overlaps_def)
  next
    case False
    with mem have xin: "x \<in> set xs" by simp
    show ?thesis
    proof (cases "y = d")
      case True
      with h same have "aid x \<noteq> aid a" by simp
      with free h True same xin show ?thesis by (auto simp: overlaps_def)
    next
      case False
      with mem have "y \<in> set xs" by simp
      with inv xin h show ?thesis unfolding no_approved_overlap_def by blast
    qed
  qed
qed

lemma createAllocation_conflict:
  "b_resourceId body = Some r \<and> b_startTime body = Some t0 \<and> b_endTime body = Some t1 \<and>
   conflictingAllocations s r t0 t1 \<noteq> [] \<longrightarrow>
   status_code (fst (createAllocation s now u body)) \<noteq> 201"
  by (simp add: createAllocation_def Let_def split: option.split)

lemma updateAllocationStatus_conflict:
  "Allocation_findById s i = Some a \<and> conflicts s i a \<noteq> [] \<longrightarrow>
   updateAllocationStatus s i (Some ''approved'') =
     (respond 409 False ''Cannot approve - conflicts with existing approved allocation''
        NoPayload, s)"
  by (simp add: updateAllocationStatus_def)

lemma createAllocation_accepted:
  "b_resourceId body = Some r \<and> b_assignedTo body = Some who \<and> who \<noteq> [] \<and>
   b_startTime body = Some t0 \<and> b_endTime body = Some t1 \<and> t0 < t1 \<and> now \<le> t0 \<and>
   Resource_findById s r = Some res \<and> conflictingAllocations s r t0 t1 = [] \<and>
   validation_errors (newAllocation s now u body) = [] \<longrightarrow>
   createAllocation s now u body =
     (respond 201 True ''Allocation created successfully'' (Data (newAllocation s now u body)),
      s\<lparr>allocations := allocations s @ [newAllocation s now u body]\<rparr>)"
  by (simp add: createAllocation_def Let_def save_checks_def pre_save_def)

lemma activeAllocation_None:
  "activeAllocation s r now = None \<longleftrightarrow> \<not> (\<exists>a \<in> set (allocations s). holds_at now r a)"
  by (auto simp: activeAllocation_def find_None_iff holds_at_def)

lemma activeAllocation_Some:
  "activeAllocation s r now = Some a \<Longrightarrow> a \<in> set (allocations s) \<and> holds_at now r a"
  unfolding activeAllocation_def holds_at_def find_Some_iff
  by (metis nth_mem)

lemma validation_errors_approvalStatus [simp]:
  "validation_errors (a\<lparr>approvalStatus := x\<rparr>) = validation_errors a"
  by (simp add: validation_errors_def)

lemma updateAllocationStatus_done:
  "Allocation_findById s j = Some a \<and> startTime a < endTime a \<and> validation_errors a = [] \<and>
   (st = Some ''rejected'' \<or> st = Some ''approved'' \<and> conflicts s j a = []) \<longrightarrow>
   updateAllocationStatus s j st =
     (respond 200 True (''Allocation '' @ the st @ '' successfully'')
        (Data (a\<lparr>approvalStatus := (if st = Some ''approved'' then Approved else Rejected)\<rparr>)),
      s\<lparr>allocations :=
          updateOne (a\<lparr>approvalStatus := (if st = Some ''approved'' then Approved else Rejected)\<rparr>)
            (allocations s)\<rparr>)"
  by (auto simp: updateAllocationStatus_def Let_def save_checks_def pre_save_def)

lemma findById_after_update:
  assumes "Allocation_findById s j = Some a"
  shows "Allocation_findById (snd (updateAllocationStatus s i st)) j = Some a \<or>
         i = j \<and> st = Some ''approved'' \<and> conflicts s j a = [] \<and>
           Allocation_findById (snd (updateAllocationStatus s i st)) j =
             Some (a\<lparr>approvalStatus := Approved\<rparr>) \<or>
         i = j \<and> st = Some ''rejected'' \<and>
           Allocation_findById (snd (updateAllocationStatus s i st)) j =
             Some (a\<lparr>approvalStatus := Rejected\<rparr>)"
  using updateAllocationStatus_cases0 [of s i st]
proof
  assume "snd (updateAllocationStatus s i st) = s"
  with assms show ?thesis by simp
next
  assume "\<exists>a. Allocation_findById s i = Some a \<and>
        (st = Some ''approved'' \<or> st = Some ''rejected'') \<and>
        (st = Some ''approved'' \<longrightarrow> conflicts s i a = []) \<and>
        startTime a < endTime a \<and>
        snd (updateAllocationStatus s i st) =
          s\<lparr>allocations :=
               updateOne (a\<lparr>approvalStatus :=
                              (if st = Some ''approved'' then Approved else Rejected)\<rparr>)
                         (allocations s)\<rparr>"
  then obtain b where found: "Allocation_findById s i = Some b"
    and st: "st = Some ''approved'' \<or> st = Some ''rejected''"
    and free: "st = Some ''approved'' \<longrightarrow> conflicts s i b = []"
    and s': "snd (updateAllocationStatus s i st) =
          s\<lparr>allocations :=
               updateOne (b\<lparr>approvalStatus :=
                              (if st = Some ''approved'' then Approved else Rejected)\<rparr>)
                         (allocations s)\<rparr>"
    by blast
  let ?d = "b\<lparr>approvalStatus := (if st = Some ''approved'' then Approved else Rejected)\<rparr>"
  from found have b: "aid b = i" "b \<in> set (allocations s)"
    using find_aid [of i "allocations s" b] by (simp_all add: Allocation_findById_def)
  have look: "Allocation_findById (snd (updateAllocationStatus s i st)) j =
        (if j = i then Some ?d else Allocation_findById s j)"
    unfolding s' using b by (auto simp: Allocation_findById_def find_updateOne)
  show ?thesis
  proof (cases "j = i")
    case True
    with found assms have "b = a" by simp
    with True look st free show ?thesis by auto
  next
    case False
    with look assms show ?thesis by simp
  qed
qed

lemma findById_after_create:
  "Allocation_findById s j = Some a \<Longrightarrow>
   Allocation_findById (snd (createAllocation s now u body)) j = Some a"
  by (simp add: Allocation_findById_def createAllocation_store find_snoc)

lemma findById_after_delete:
  "j \<noteq> i \<Longrightarrow>
   Allocation_findById (snd (deleteAllocation s i)) j = Allocation_findById s j"
  by (simp add: Allocation_findById_def deleteAllocation_store find_deleteOne_other)

lemma findById_deleted:
  "distinct (map aid (allocations s)) \<Longrightarrow>
   Allocation_findById (snd (deleteAllocation s i)) i = None"
  by (simp add: Allocation_findById_def deleteAllocation_store find_deleteOne_same)

text \<open>A handler that runs undisturbed is its read part followed by its write.\<close>

lemma createAllocation_in_one_step:
  "createAllocation s now u body =
     (case createAllocation_read s now u body of
        Inl r \<Rightarrow> (r, s)
      | Inr d \<Rightarrow> (respond 201 True ''Allocation created successfully'' (Data d),
                  Allocation_insert d s))"
proof -
  have same: "(newAllocation s now u body)\<lparr>aid := fresh_oid (allocations s)\<rparr> =
              newAllocation s now u body"
    by (simp add: newAllocation_def)
  show ?thesis
    unfolding createAllocation_def createAllocation_read_def Let_def Allocation_insert_def same
    by (simp split: option.split save_error.split)
qed

lemma updateAllocationStatus_in_one_step:
  "updateAllocationStatus s i st =
     (case updateAllocationStatus_read s i st of
        Inl r \<Rightarrow> (r, s)
      | Inr d \<Rightarrow> (respond 200 True (''Allocation '' @ the st @ '' successfully'') (Data d),
                  Allocation_update d s))"
  unfolding updateAllocationStatus_def updateAllocationStatus_read_def Let_def
    Allocation_update_def
  by (simp split: option.split)

section \<open>Properties\<close>

text \<open>
  C1. Two requests in flight together get overlapping approvals stored. Two administrators
  ask for the room from 10:00 to 11:00 and from 10:30 to 11:30; both read parts run on the
  empty collection, find no conflict and arrive at an approved document; both documents are
  written, and the collection holds two approved allocations of the room that overlap. In
  the same way two pending allocations that overlap are both approved when both approvals
  read the collection before either writes.
\<close>

theorem concurrent_requests_admit_overlap:
  "no_approved_overlap (allocations (ex_store [])) \<and>
   createAllocation_read (ex_store []) 900 (Some ex_admin) (ex_body 5 1000 1100) =
     Inr (ex_new 1000 1100) \<and>
   createAllocation_read (ex_store []) 900 (Some ex_admin) (ex_body 5 1030 1130) =
     Inr (ex_new 1030 1130) \<and>
   allocations (Allocation_insert (ex_new 1030 1130)
                  (Allocation_insert (ex_new 1000 1100) (ex_store []))) =
     [(ex_new 1000 1100)\<lparr>aid := 1\<rparr>, (ex_new 1030 1130)\<lparr>aid := 2\<rparr>] \<and>
   \<not> no_approved_overlap
         (allocations (Allocation_insert (ex_new 1030 1130)
                         (Allocation_insert (ex_new 1000 1100) (ex_store [])))) \<and>
   no_approved_overlap
     (allocations (ex_store [ex_alloc 11 1000 1100 Pending, ex_alloc 12 1030 1130 Pending])) \<and>
   updateAllocationStatus_read
     (ex_store [ex_alloc 11 1000 1100 Pending, ex_alloc 12 1030 1130 Pending])
     11 (Some ''approved'') = Inr (ex_alloc 11 1000 1100 Approved) \<and>
   updateAllocationStatus_read
     (ex_store [ex_alloc 11 1000 1100 Pending, ex_alloc 12 1030 1130 Pending])
     12 (Some ''approved'') = Inr (ex_alloc 12 1030 1130 Approved) \<and>
   allocations (Allocation_update (ex_alloc 12 1030 1130 Approved)
                  (Allocation_update (ex_alloc 11 1000 1100 Approved)
                     (ex_store [ex_alloc 11 1000 1100 Pending, ex_alloc 12 1030 1130 Pending]))) =
     [ex_alloc 11 1000 1100 Approved, ex_alloc 12 1030 1130 Approved] \<and>
   \<not> no_approved_overlap [ex_alloc 11 1000 1100 Approved, ex_alloc 12 1030 1130 Approved]"
proof -
  have start: "no_approved_overlap (allocations (ex_store []))"
    by (simp add: no_approved_overlap_def)
  have readA: "createAllocation_read (ex_store []) 900 (Some ex_admin) (ex_body 5 1000 1100) =
     Inr (ex_new 1000 1100)"
    by (simp add: createAllocation_read_def Resource_findById_def conflictingAllocations_def
          newAllocation_def save_checks_def validation_errors_def pre_save_def trim_def
          is_ws_def fresh_oid_def isAdmin_def ex_room_def ex_body_def ex_admin_def ex_new_def
          Let_def)
  have readB: "createAllocation_read (ex_store []) 900 (Some ex_admin) (ex_body 5 1030 1130) =
     Inr (ex_new 1030 1130)"
    by (simp add: createAllocation_read_def Resource_findById_def conflictingAllocations_def
          newAllocation_def save_checks_def validation_errors_def pre_save_def trim_def
          is_ws_def fresh_oid_def isAdmin_def ex_room_def ex_body_def ex_admin_def ex_new_def
          Let_def)
  have written: "allocations (Allocation_insert (ex_new 1030 1130)
                  (Allocation_insert (ex_new 1000 1100) (ex_store []))) =
     [(ex_new 1000 1100)\<lparr>aid := 1\<rparr>, (ex_new 1030 1130)\<lparr>aid := 2\<rparr>]"
    by (simp add: Allocation_insert_def fresh_oid_def ex_new_def)
  have broken: "\<not> no_approved_overlap
     [(ex_new 1000 1100)\<lparr>aid := 1\<rparr>, (ex_new 1030 1130)\<lparr>aid := 2\<rparr>]"
    by (simp add: no_approved_overlap_def overlaps_def ex_new_def)
  have start': "no_approved_overlap
     (allocations (ex_store [ex_alloc 11 1000 1100 Pending, ex_alloc 12 1030 1130 Pending]))"
    by (simp add: no_approved_overlap_def ex_alloc_def)
  have read11: "updateAllocationStatus_read
     (ex_store [ex_alloc 11 1000 1100 Pending, ex_alloc 12 1030 1130 Pending])
     11 (Some ''approved'') = Inr (ex_alloc 11 1000 1100 Approved)"
    by (simp add: updateAllocationStatus_read_def Allocation_findById_def conflicts_def
          save_checks_def validation_errors_def pre_save_def ex_alloc_def Let_def)
  have read12: "updateAllocationStatus_read
     (ex_store [ex_alloc 11 1000 1100 Pending, ex_alloc 12 1030 1130 Pending])
     12 (Some ''approved'') = Inr (ex_alloc 12 1030 1130 Approved)"
    by (simp add: updateAllocationStatus_read_def Allocation_findById_def conflicts_def
          save_checks_def validation_errors_def pre_save_def ex_alloc_def Let_def)
  have written': "allocations (Allocation_update (ex_alloc 12 1030 1130 Approved)
                  (Allocation_update (ex_alloc 11 1000 1100 Approved)
                     (ex_store [ex_alloc 11 1000 1100 Pending, ex_alloc 12 1030 1130 Pending]))) =
     [ex_alloc 11 1000 1100 Approved, ex_alloc 12 1030 1130 Approved]"
    by (simp add: Allocation_update_def ex_alloc_def ex_store_def)
  have broken': "\<not> no_approved_overlap
     [ex_alloc 11 1000 1100 Approved, ex_alloc 12 1030 1130 Approved]"
    by (simp add: no_approved_overlap_def overlaps_def ex_alloc_def)
  from start readA readB written broken start' read11 read12 written' broken'
  show ?thesis by simp
qed

theorem concurrent_requests_admit_overlap_witness:
  "aid ((ex_new 1000 1100)\<lparr>aid := 1\<rparr>) \<noteq> aid ((ex_new 1030 1130)\<lparr>aid := 2\<rparr>) \<and>
   resourceId ((ex_new 1000 1100)\<lparr>aid := 1\<rparr>) = resourceId ((ex_new 1030 1130)\<lparr>aid := 2\<rparr>) \<and>
   approvalStatus ((ex_new 1000 1100)\<lparr>aid := 1\<rparr>) = Approved \<and>
   approvalStatus ((ex_new 1030 1130)\<lparr>aid := 2\<rparr>) = Approved \<and>
   overlaps ((ex_new 1000 1100)\<lparr>aid := 1\<rparr>) ((ex_new 1030 1130)\<lparr>aid := 2\<rparr>) \<and>
   allocations (Allocation_insert (ex_new 1030 1130)
                  (Allocation_insert (ex_new 1000 1100) (ex_store []))) =
     [(ex_new 1000 1100)\<lparr>aid := 1\<rparr>, (ex_new 1030 1130)\<lparr>aid := 2\<rparr>] \<and>
   \<not> no_approved_overlap
         (allocations (Allocation_insert (ex_new 1030 1130)
                         (Allocation_insert (ex_new 1000 1100) (ex_store []))))"
proof -
  have pair: "aid ((ex_new 1000 1100)\<lparr>aid := 1\<rparr>) \<noteq> aid ((ex_new 1030 1130)\<lparr>aid := 2\<rparr>) \<and>
   resourceId ((ex_new 1000 1100)\<lparr>aid := 1\<rparr>) = resourceId ((ex_new 1030 1130)\<lparr>aid := 2\<rparr>) \<and>
   approvalStatus ((ex_new 1000 1100)\<lparr>aid := 1\<rparr>) = Approved \<and>
   approvalStatus ((ex_new 1030 1130)\<lparr>aid := 2\<rparr>) = Approved \<and>
   overlaps ((ex_new 1000 1100)\<lparr>aid := 1\<rparr>) ((ex_new 1030 1130)\<lparr>aid := 2\<rparr>)"
    by (simp add: ex_new_def overlaps_def)
  from pair concurrent_requests_admit_overlap show ?thesis by blast
qed

text \<open>
  Handled one after the other, each request running to its end before the next begins,
  the handlers do keep the collection free of overlapping approvals: a collection in which
  no two approved allocations of one resource overlap stays so under \<open>createAllocation\<close>,
  \<open>updateAllocationStatus\<close> and \<open>deleteAllocation\<close>. \<open>createAllocation\<close> stores nothing
  when an approved allocation of the resource overlaps the requested interval, and
  \<open>updateAllocationStatus\<close> answers 409 and stores nothing when the allocation to approve
  overlaps another approved allocation of its resource.
\<close>

theorem no_approved_overlap_preserved:
  "(no_approved_overlap (allocations s) \<longrightarrow>
      no_approved_overlap (allocations (snd (createAllocation s now u body))) \<and>
      no_approved_overlap (allocations (snd (updateAllocationStatus s i st))) \<and>
      no_approved_overlap (allocations (snd (deleteAllocation s i)))) \<and>
   (b_resourceId body = Some r \<and> b_startTime body = Some t0 \<and> b_endTime body = Some t1 \<and>
    conflictingAllocations s r t0 t1 \<noteq> [] \<longrightarrow>
      status_code (fst (createAllocation s now u body)) \<noteq> 201 \<and>
      snd (createAllocation s now u body) = s) \<and>
   (Allocation_findById s i = Some a \<and> conflicts s i a \<noteq> [] \<longrightarrow>
      updateAllocationStatus s i (Some ''approved'') =
        (respond 409 False ''Cannot approve - conflicts with existing approved allocation''
           NoPayload, s))"
proof -
  have create: "no_approved_overlap (allocations (snd (createAllocation s now u body)))"
    if inv: "no_approved_overlap (allocations s)"
  proof (cases "status_code (fst (createAllocation s now u body)) = 201")
    case True
    let ?d = "newAllocation s now u body"
    from createAllocation_created(4) [OF True]
    have "\<forall>x \<in> set (allocations s). resourceId x = resourceId ?d \<and> approvalStatus x = Approved \<longrightarrow>
            \<not> (startTime x < endTime ?d \<and> endTime x > startTime ?d)"
      by (auto simp: conflictingAllocations_def filter_empty_conv)
    with inv have "no_approved_overlap (allocations s @ [?d])"
      by (intro no_approved_overlap_snoc) simp_all
    with True show ?thesis by (simp add: createAllocation_store)
  next
    case False
    with inv show ?thesis by (simp add: createAllocation_store)
  qed
  have update: "no_approved_overlap (allocations (snd (updateAllocationStatus s i st)))"
    if inv: "no_approved_overlap (allocations s)"
    using updateAllocationStatus_cases0 [of s i st]
  proof
    assume "snd (updateAllocationStatus s i st) = s"
    with inv show ?thesis by simp
  next
    assume "\<exists>a. Allocation_findById s i = Some a \<and>
        (st = Some ''approved'' \<or> st = Some ''rejected'') \<and>
        (st = Some ''approved'' \<longrightarrow> conflicts s i a = []) \<and>
        startTime a < endTime a \<and>
        snd (updateAllocationStatus s i st) =
          s\<lparr>allocations :=
               updateOne (a\<lparr>approvalStatus :=
                              (if st = Some ''approved'' then Approved else Rejected)\<rparr>)
                         (allocations s)\<rparr>"
    then obtain b where found: "Allocation_findById s i = Some b"
      and st: "st = Some ''approved'' \<or> st = Some ''rejected''"
      and free: "st = Some ''approved'' \<longrightarrow> conflicts s i b = []"
      and s': "snd (updateAllocationStatus s i st) =
          s\<lparr>allocations :=
               updateOne (b\<lparr>approvalStatus :=
                              (if st = Some ''approved'' then Approved else Rejected)\<rparr>)
                         (allocations s)\<rparr>"
      by blast
    let ?d = "b\<lparr>approvalStatus := (if st = Some ''approved'' then Approved else Rejected)\<rparr>"
    from found have idb: "aid b = i"
      using find_aid [of i "allocations s" b] by (simp add: Allocation_findById_def)
    have "approvalStatus ?d = Approved \<longrightarrow>
         (\<forall>x \<in> set (allocations s). aid x \<noteq> aid b \<and> resourceId x = resourceId b \<and>
                        approvalStatus x = Approved \<longrightarrow>
            \<not> (startTime x < endTime b \<and> endTime x > startTime b))"
    proof
      assume "approvalStatus ?d = Approved"
      then have "st = Some ''approved''" by (simp split: if_split_asm)
      with free have "conflicts s i b = []" by simp
      with idb show "\<forall>x \<in> set (allocations s). aid x \<noteq> aid b \<and> resourceId x = resourceId b \<and>
                        approvalStatus x = Approved \<longrightarrow>
            \<not> (startTime x < endTime b \<and> endTime x > startTime b)"
        by (auto simp: conflicts_def filter_empty_conv)
    qed
    with inv have "no_approved_overlap (updateOne ?d (allocations s))"
      by (intro no_approved_overlap_updateOne [where a = b]) simp_all
    then show ?thesis unfolding s' by simp
  qed
  have delete: "no_approved_overlap (allocations (snd (deleteAllocation s i)))"
    if inv: "no_approved_overlap (allocations s)"
    using inv by (simp add: deleteAllocation_store no_approved_overlap_deleteOne)
  have refuse: "b_resourceId body = Some r \<and> b_startTime body = Some t0 \<and>
      b_endTime body = Some t1 \<and> conflictingAllocations s r t0 t1 \<noteq> [] \<longrightarrow>
      status_code (fst (createAllocation s now u body)) \<noteq> 201 \<and>
      snd (createAllocation s now u body) = s"
    using createAllocation_conflict [of body r t0 t1 s now u]
          createAllocation_rejected [of s now u body] by blast
  from create update delete refuse updateAllocationStatus_conflict [of s i a]
  show ?thesis by blast
qed

theorem no_approved_overlap_preserved_witness:
  "no_approved_overlap
     (allocations (ex_store [ex_alloc 11 1000 1100 Pending, ex_alloc 12 1030 1130 Approved])) \<and>
   conflictingAllocations
     (ex_store [ex_alloc 11 1000 1100 Pending, ex_alloc 12 1030 1130 Approved]) 5 1100 1200 \<noteq> [] \<and>
   snd (createAllocation
          (ex_store [ex_alloc 11 1000 1100 Pending, ex_alloc 12 1030 1130 Approved])
          900 (Some ex_admin) (ex_body 5 1100 1200)) =
     ex_store [ex_alloc 11 1000 1100 Pending, ex_alloc 12 1030 1130 Approved] \<and>
   updateAllocationStatus
     (ex_store [ex_alloc 11 1000 1100 Pending, ex_alloc 12 1030 1130 Approved])
     11 (Some ''approved'') =
     (respond 409 False ''Cannot approve - conflicts with existing approved allocation''
        NoPayload,
      ex_store [ex_alloc 11 1000 1100 Pending, ex_alloc 12 1030 1130 Approved]) \<and>
   no_approved_overlap
     (allocations (snd (createAllocation
          (ex_store [ex_alloc 11 1000 1100 Pending, ex_alloc 12 1030 1130 Approved])
          900 (Some ex_admin) (ex_body 5 1130 1200)))) \<and>
   no_approved_overlap
     (allocations (snd (updateAllocationStatus
          (ex_store [ex_alloc 11 1000 1100 Pending, ex_alloc 12 1030 1130 Approved])
          12 (Some ''rejected'')))) \<and>
   no_approved_overlap
     (allocations (snd (deleteAllocation
          (ex_store [ex_alloc 11 1000 1100 Pending, ex_alloc 12 1030 1130 Approved]) 12)))"
proof -
  let ?S = "ex_store [ex_alloc 11 1000 1100 Pending, ex_alloc 12 1030 1130 Approved]"
  have inv: "no_approved_overlap (allocations ?S)"
    by (simp add: ex_alloc_def no_approved_overlap_def)
  have body: "b_resourceId (ex_body 5 1100 1200) = Some 5 \<and>
      b_startTime (ex_body 5 1100 1200) = Some 1100 \<and>
      b_endTime (ex_body 5 1100 1200) = Some 1200"
    by (simp add: ex_body_def)
  have clash: "conflictingAllocations ?S 5 1100 1200 \<noteq> []"
    by (simp add: ex_alloc_def conflictingAllocations_def)
  have found: "Allocation_findById ?S 11 = Some (ex_alloc 11 1000 1100 Pending)"
    by (simp add: ex_alloc_def Allocation_findById_def)
  have clash': "conflicts ?S 11 (ex_alloc 11 1000 1100 Pending) \<noteq> []"
    by (simp add: ex_alloc_def conflicts_def)
  from inv body clash found clash'
    no_approved_overlap_preserved
          [of ?S 900 "Some ex_admin" "ex_body 5 1100 1200" 11 "Some ''approved''"
              5 1100 1200 "ex_alloc 11 1000 1100 Pending"]
    no_approved_overlap_preserved
          [of ?S 900 "Some ex_admin" "ex_body 5 1130 1200" 12 "Some ''rejected''"
              5 1130 1200 "ex_alloc 12 1030 1130 Approved"]
  show ?thesis by blast
qed

text \<open>
  C2. The conflict query of \<open>createAllocation\<close> returns exactly the stored allocations of
  the resource that are approved, start before the new end and end after the new start;
  the query of \<open>updateAllocationStatus\<close> returns the same set for the interval of the
  allocation to approve, without that allocation. An allocation that is not approved is
  never in either set, and neither is one that only touches the interval at a boundary.
  When every approved allocation of the resource ends no later than the new start or
  starts no earlier than the new end, the conflict set is empty, and a request that
  passes the other checks is answered with 201 and stored.
\<close>

theorem conflict_set_exact:
  "set (conflictingAllocations s r t0 t1) =
     {x \<in> set (allocations s). resourceId x = r \<and> approvalStatus x = Approved \<and>
                                startTime x < t1 \<and> endTime x > t0} \<and>
   set (conflicts s i a) =
     {x \<in> set (allocations s). aid x \<noteq> i \<and> resourceId x = resourceId a \<and>
                                approvalStatus x = Approved \<and>
                                startTime x < endTime a \<and> endTime x > startTime a} \<and>
   (approvalStatus x \<noteq> Approved \<longrightarrow>
      x \<notin> set (conflictingAllocations s r t0 t1) \<and> x \<notin> set (conflicts s i a)) \<and>
   (endTime x = t0 \<or> startTime x = t1 \<longrightarrow> x \<notin> set (conflictingAllocations s r t0 t1)) \<and>
   (endTime x = startTime a \<or> startTime x = endTime a \<longrightarrow> x \<notin> set (conflicts s i a)) \<and>
   ((\<forall>y \<in> set (allocations s). resourceId y = r \<and> approvalStatus y = Approved \<longrightarrow>
        endTime y \<le> t0 \<or> t1 \<le> startTime y) \<longrightarrow>
      conflictingAllocations s r t0 t1 = [] \<and>
      (b_resourceId body = Some r \<and> b_assignedTo body = Some who \<and> who \<noteq> [] \<and>
       b_startTime body = Some t0 \<and> b_endTime body = Some t1 \<and> t0 < t1 \<and> now \<le> t0 \<and>
       Resource_findById s r = Some res \<and>
       validation_errors (newAllocation s now u body) = [] \<longrightarrow>
         createAllocation s now u body =
           (respond 201 True ''Allocation created successfully''
              (Data (newAllocation s now u body)),
            s\<lparr>allocations := allocations s @ [newAllocation s now u body]\<rparr>)))"
proof -
  have q1: "set (conflictingAllocations s r t0 t1) =
     {x \<in> set (allocations s). resourceId x = r \<and> approvalStatus x = Approved \<and>
                                startTime x < t1 \<and> endTime x > t0}"
    by (simp add: conflictingAllocations_def)
  have q2: "set (conflicts s i a) =
     {x \<in> set (allocations s). aid x \<noteq> i \<and> resourceId x = resourceId a \<and>
                                approvalStatus x = Approved \<and>
                                startTime x < endTime a \<and> endTime x > startTime a}"
    by (simp add: conflicts_def)
  have p: "approvalStatus x \<noteq> Approved \<longrightarrow>
      x \<notin> set (conflictingAllocations s r t0 t1) \<and> x \<notin> set (conflicts s i a)"
    by (simp add: q1 q2)
  have t1: "endTime x = t0 \<or> startTime x = t1 \<longrightarrow> x \<notin> set (conflictingAllocations s r t0 t1)"
    by (auto simp: q1)
  have t2: "endTime x = startTime a \<or> startTime x = endTime a \<longrightarrow> x \<notin> set (conflicts s i a)"
    by (auto simp: q2)
  have e: "conflictingAllocations s r t0 t1 = []"
    if "\<forall>y \<in> set (allocations s). resourceId y = r \<and> approvalStatus y = Approved \<longrightarrow>
        endTime y \<le> t0 \<or> t1 \<le> startTime y"
    using that by (fastforce simp: conflictingAllocations_def filter_empty_conv)
  from q1 q2 p t1 t2 e createAllocation_accepted [of body r who t0 t1 now s res u]
  show ?thesis by blast
qed

theorem conflict_set_exact_witness:
  "conflictingAllocations (ex_store [ex_alloc 11 1000 1100 Approved]) 5 1100 1200 = [] \<and>
   createAllocation (ex_store [ex_alloc 11 1000 1100 Approved]) 900 (Some ex_user)
       (ex_body 5 1100 1200) =
     (respond 201 True ''Allocation created successfully''
        (Data (newAllocation (ex_store [ex_alloc 11 1000 1100 Approved]) 900 (Some ex_user)
                 (ex_body 5 1100 1200))),
      (ex_store [ex_alloc 11 1000 1100 Approved])
        \<lparr>allocations := allocations (ex_store [ex_alloc 11 1000 1100 Approved]) @
           [newAllocation (ex_store [ex_alloc 11 1000 1100 Approved]) 900 (Some ex_user)
              (ex_body 5 1100 1200)]\<rparr>) \<and>
   ex_alloc 11 1000 1100 Approved \<notin>
     set (conflictingAllocations (ex_store [ex_alloc 11 1000 1100 Approved]) 5 1100 1200) \<and>
   ex_alloc 11 1000 1100 Pending \<notin>
     set (conflicts (ex_store [ex_alloc 11 1000 1100 Pending]) 12 (ex_alloc 12 1030 1130 Pending))"
proof -
  let ?S = "ex_store [ex_alloc 11 1000 1100 Approved]"
  let ?b = "ex_body 5 1100 1200"
  have touch: "endTime (ex_alloc 11 1000 1100 Approved) = 1100"
    by (simp add: ex_alloc_def)
  have away: "\<forall>x \<in> set (allocations ?S). resourceId x = 5 \<and> approvalStatus x = Approved \<longrightarrow>
        endTime x \<le> 1100 \<or> 1200 \<le> startTime x"
    by (simp add: ex_alloc_def)
  have body: "b_resourceId ?b = Some 5 \<and> b_assignedTo ?b = Some ''Bob'' \<and> ''Bob'' \<noteq> [] \<and>
       b_startTime ?b = Some 1100 \<and> b_endTime ?b = Some 1200 \<and> (1100::int) < 1200 \<and>
       (900::int) \<le> 1100"
    by (simp add: ex_body_def)
  have room: "Resource_findById ?S 5 = Some ex_room"
    by (simp add: Resource_findById_def ex_room_def)
  have valid: "validation_errors (newAllocation ?S 900 (Some ex_user) ?b) = []"
    by (simp add: validation_errors_def newAllocation_def ex_body_def trim_def is_ws_def)
  have pend: "approvalStatus (ex_alloc 11 1000 1100 Pending) \<noteq> Approved"
    by (simp add: ex_alloc_def)
  from touch away body room valid
    conflict_set_exact [of ?S 5 1100 1200 11 "ex_alloc 11 1000 1100 Approved"
                           "ex_alloc 11 1000 1100 Approved" ?b "''Bob''" 900 ex_room "Some ex_user"]
  have "conflictingAllocations ?S 5 1100 1200 = []"
    and "createAllocation ?S 900 (Some ex_user) ?b =
     (respond 201 True ''Allocation created successfully''
        (Data (newAllocation ?S 900 (Some ex_user) ?b)),
      ?S\<lparr>allocations := allocations ?S @ [newAllocation ?S 900 (Some ex_user) ?b]\<rparr>)"
    and "ex_alloc 11 1000 1100 Approved \<notin> set (conflictingAllocations ?S 5 1100 1200)"
    by blast+
  moreover from pend
    conflict_set_exact [of "ex_store [ex_alloc 11 1000 1100 Pending]" 5 1100 1200 12
                           "ex_alloc 12 1030 1130 Pending" "ex_alloc 11 1000 1100 Pending"]
  have "ex_alloc 11 1000 1100 Pending \<notin>
     set (conflicts (ex_store [ex_alloc 11 1000 1100 Pending]) 12 (ex_alloc 12 1030 1130 Pending))"
    by blast
  ultimately show ?thesis by blast
qed

text \<open>
  C3 (as the code has it). \<open>getAllResources\<close> has one row for every stored resource, newest
  first, and \<open>getResourceById\<close> answers for the resource with the given identifier, and
  with nothing exactly when no resource has it. A resource is reported \<open>Allocated\<close> at an
  instant if and only if some stored allocation of it, of whatever approval status, starts
  no later and ends no earlier than that instant; otherwise it is reported \<open>Available\<close>.
  When it is \<open>Allocated\<close>, \<open>getAllResources\<close> returns the assignee, interval and purpose
  of such an allocation and \<open>getResourceById\<close> returns the allocation itself; when it is
  \<open>Available\<close> both return none.
\<close>

theorem resource_status_any_approval:
  "map v_resource (getAllResources s now) = sort_key (\<lambda>r. - rcreatedAt r) (resources s) \<and>
   v_resource ` set (getAllResources s now) = set (resources s) \<and>
   (\<forall>v \<in> set (getAllResources s now).
      (v_status v = Allocated \<longleftrightarrow>
         (\<exists>a \<in> set (allocations s). holds_at now (rid (v_resource v)) a)) \<and>
      (v_status v = Available \<longleftrightarrow>
         \<not> (\<exists>a \<in> set (allocations s). holds_at now (rid (v_resource v)) a)) \<and>
      (v_status v = Allocated \<longrightarrow>
         (\<exists>a \<in> set (allocations s). holds_at now (rid (v_resource v)) a \<and>
            v_currentAllocation v = Some (occupant_of a))) \<and>
      (v_status v = Available \<longrightarrow> v_currentAllocation v = None)) \<and>
   (getResourceById s i now = None \<longleftrightarrow> (\<forall>r \<in> set (resources s). rid r \<noteq> i)) \<and>
   (getResourceById s i now = Some (res, status, cur) \<longrightarrow>
      res \<in> set (resources s) \<and> rid res = i \<and> Resource_findById s i = Some res \<and>
      (status = Allocated \<longleftrightarrow> (\<exists>a \<in> set (allocations s). holds_at now (rid res) a)) \<and>
      (status = Available \<longleftrightarrow> \<not> (\<exists>a \<in> set (allocations s). holds_at now (rid res) a)) \<and>
      (status = Allocated \<longrightarrow>
         (\<exists>a \<in> set (allocations s). holds_at now (rid res) a \<and> cur = Some a)) \<and>
      (status = Available \<longrightarrow> cur = None))"
proof -
  have row: "(st = Allocated \<longleftrightarrow> (\<exists>a \<in> set (allocations s). holds_at now r a)) \<and>
      (st = Available \<longleftrightarrow> \<not> (\<exists>a \<in> set (allocations s). holds_at now r a)) \<and>
      (st = Allocated \<longrightarrow>
         (\<exists>a \<in> set (allocations s). holds_at now r a \<and> activeAllocation s r now = Some a)) \<and>
      (st = Available \<longrightarrow> activeAllocation s r now = None)"
    if "st = (case activeAllocation s r now of Some a \<Rightarrow> Allocated | None \<Rightarrow> Available)"
    for st r
  proof (cases "activeAllocation s r now")
    case None
    with that activeAllocation_None [of s r now] show ?thesis by simp
  next
    case (Some a)
    with that activeAllocation_Some [OF Some] show ?thesis by auto
  qed
  have all: "\<forall>v \<in> set (getAllResources s now).
      (v_status v = Allocated \<longleftrightarrow>
         (\<exists>a \<in> set (allocations s). holds_at now (rid (v_resource v)) a)) \<and>
      (v_status v = Available \<longleftrightarrow>
         \<not> (\<exists>a \<in> set (allocations s). holds_at now (rid (v_resource v)) a)) \<and>
      (v_status v = Allocated \<longrightarrow>
         (\<exists>a \<in> set (allocations s). holds_at now (rid (v_resource v)) a \<and>
            v_currentAllocation v = Some (occupant_of a))) \<and>
      (v_status v = Available \<longrightarrow> v_currentAllocation v = None)"
  proof
    fix v assume "v \<in> set (getAllResources s now)"
    then obtain r where
      st: "v_status v = (case activeAllocation s (rid r) now of
                           Some a \<Rightarrow> Allocated | None \<Rightarrow> Available)"
      and cur: "v_currentAllocation v = map_option occupant_of (activeAllocation s (rid r) now)"
      and r: "v_resource v = r"
      by (auto simp: getAllResources_def)
    from row [OF st] cur r
    show "(v_status v = Allocated \<longleftrightarrow>
         (\<exists>a \<in> set (allocations s). holds_at now (rid (v_resource v)) a)) \<and>
      (v_status v = Available \<longleftrightarrow>
         \<not> (\<exists>a \<in> set (allocations s). holds_at now (rid (v_resource v)) a)) \<and>
      (v_status v = Allocated \<longrightarrow>
         (\<exists>a \<in> set (allocations s). holds_at now (rid (v_resource v)) a \<and>
            v_currentAllocation v = Some (occupant_of a))) \<and>
      (v_status v = Available \<longrightarrow> v_currentAllocation v = None)"
      by auto
  qed
  have rows: "map v_resource (getAllResources s now) =
      sort_key (\<lambda>r. - rcreatedAt r) (resources s)"
    by (simp add: getAllResources_def o_def)
  have rows_set: "v_resource ` set (getAllResources s now) = set (resources s)"
  proof -
    have "v_resource ` set (getAllResources s now) = set (map v_resource (getAllResources s now))"
      by simp
    also have "\<dots> = set (resources s)"
      unfolding rows by simp
    finally show ?thesis .
  qed
  have none: "getResourceById s i now = None \<longleftrightarrow> (\<forall>r \<in> set (resources s). rid r \<noteq> i)"
  proof (cases "Resource_findById s i")
    case None
    then have "\<forall>r \<in> set (resources s). rid r \<noteq> i"
      by (simp add: Resource_findById_def find_None_iff)
    with None show ?thesis by (simp add: getResourceById_def)
  next
    case (Some r)
    then have "find (\<lambda>r. rid r = i) (resources s) = Some r"
      by (simp add: Resource_findById_def)
    then have "rid r = i \<and> r \<in> set (resources s)"
      unfolding find_Some_iff by (metis nth_mem)
    with Some show ?thesis by (auto simp: getResourceById_def)
  qed
  have this_one: "res \<in> set (resources s) \<and> rid res = i \<and> Resource_findById s i = Some res"
    if got: "getResourceById s i now = Some (res, status, cur)"
  proof -
    from got have f: "Resource_findById s i = Some res"
      by (auto simp: getResourceById_def split: option.splits)
    then have "find (\<lambda>r. rid r = i) (resources s) = Some res"
      by (simp add: Resource_findById_def)
    then have "rid res = i \<and> res \<in> set (resources s)"
      unfolding find_Some_iff by (metis nth_mem)
    with f show ?thesis by simp
  qed
  have one: "getResourceById s i now = Some (res, status, cur) \<longrightarrow>
      (status = Allocated \<longleftrightarrow> (\<exists>a \<in> set (allocations s). holds_at now (rid res) a)) \<and>
      (status = Available \<longleftrightarrow> \<not> (\<exists>a \<in> set (allocations s). holds_at now (rid res) a)) \<and>
      (status = Allocated \<longrightarrow>
         (\<exists>a \<in> set (allocations s). holds_at now (rid res) a \<and> cur = Some a)) \<and>
      (status = Available \<longrightarrow> cur = None)"
  proof
    assume "getResourceById s i now = Some (res, status, cur)"
    then have st: "status = (case activeAllocation s (rid res) now of
                           Some a \<Rightarrow> Allocated | None \<Rightarrow> Available)"
      and cur: "cur = activeAllocation s (rid res) now"
      by (auto simp: getResourceById_def split: option.splits)
    from row [OF st] cur
    show "(status = Allocated \<longleftrightarrow> (\<exists>a \<in> set (allocations s). holds_at now (rid res) a)) \<and>
      (status = Available \<longleftrightarrow> \<not> (\<exists>a \<in> set (allocations s). holds_at now (rid res) a)) \<and>
      (status = Allocated \<longrightarrow>
         (\<exists>a \<in> set (allocations s). holds_at now (rid res) a \<and> cur = Some a)) \<and>
      (status = Available \<longrightarrow> cur = None)"
      by auto
  qed
  from rows rows_set all none this_one one show ?thesis by blast
qed

theorem resource_status_any_approval_witness:
  "getResourceById (ex_store [ex_alloc 11 1000 1100 Approved]) 5 1050 =
     Some (ex_room, Allocated, Some (ex_alloc 11 1000 1100 Approved)) \<and>
   ex_room \<in> set (resources (ex_store [ex_alloc 11 1000 1100 Approved])) \<and>
   rid ex_room = 5 \<and>
   holds_at 1050 5 (ex_alloc 11 1000 1100 Approved) \<and>
   getResourceById (ex_store [ex_alloc 11 1000 1100 Approved]) 5 1101 =
     Some (ex_room, Available, None) \<and>
   getResourceById (ex_store [ex_alloc 11 1000 1100 Approved]) 6 1050 = None \<and>
   map v_resource (getAllResources (ex_store [ex_alloc 11 1000 1100 Approved]) 1100) =
     [ex_room] \<and>
   getAllResources (ex_store [ex_alloc 11 1000 1100 Approved]) 1100 =
     [\<lparr>v_resource = ex_room, v_status = Allocated,
       v_currentAllocation = Some (occupant_of (ex_alloc 11 1000 1100 Approved))\<rparr>]"
proof -
  let ?S = "ex_store [ex_alloc 11 1000 1100 Approved]"
  have r1: "getResourceById ?S 5 1050 = Some (ex_room, Allocated, Some (ex_alloc 11 1000 1100 Approved))"
    by (simp add: getResourceById_def Resource_findById_def activeAllocation_def ex_room_def
          ex_alloc_def)
  have r2: "getResourceById ?S 5 1101 = Some (ex_room, Available, None)"
    by (simp add: getResourceById_def Resource_findById_def activeAllocation_def ex_room_def
          ex_alloc_def)
  have r3: "getAllResources ?S 1100 =
     [\<lparr>v_resource = ex_room, v_status = Allocated,
       v_currentAllocation = Some (occupant_of (ex_alloc 11 1000 1100 Approved))\<rparr>]"
    by (simp add: getAllResources_def activeAllocation_def ex_room_def ex_alloc_def)
  have absent: "\<forall>r \<in> set (resources ?S). rid r \<noteq> 6"
    by (simp add: ex_room_def)
  have sorted1: "sort_key (\<lambda>r. - rcreatedAt r) (resources ?S) = [ex_room]"
    by simp
  note at_1050 = resource_status_any_approval
            [of ?S 1050 5 ex_room Allocated "Some (ex_alloc 11 1000 1100 Approved)"]
  have rr: "ex_room \<in> set (resources ?S) \<and> rid ex_room = 5"
    using at_1050 r1 by blast
  have h: "holds_at 1050 5 (ex_alloc 11 1000 1100 Approved)"
    using at_1050 r1 rr by simp
  have gone: "getResourceById ?S 6 1050 = None"
    using resource_status_any_approval [of ?S 1050 6 ex_room Available None] absent
    by blast
  have listed: "map v_resource (getAllResources ?S 1100) = [ex_room]"
    using resource_status_any_approval [of ?S 1100 5 ex_room Available None] sorted1
    by simp
  have "\<not> (\<exists>a \<in> set (allocations ?S). holds_at 1101 (rid ex_room) a)"
    using resource_status_any_approval [of ?S 1101 5 ex_room Available None] r2
    by blast
  from r1 rr h r2 gone listed r3 show ?thesis by blast
qed

text \<open>
  The approval status plays no part: a resource whose only allocations are a pending and
  a rejected one is reported \<open>Allocated\<close> while the pending one holds.
\<close>

theorem resource_status_counterexample:
  "getResourceById (ex_store [ex_alloc 11 1000 1100 Pending, ex_alloc 12 1030 1130 Rejected]) 5 1050 =
     Some (ex_room, Allocated, Some (ex_alloc 11 1000 1100 Pending)) \<and>
   map v_status
     (getAllResources (ex_store [ex_alloc 11 1000 1100 Pending, ex_alloc 12 1030 1130 Rejected]) 1050) =
     [Allocated] \<and>
   map approvalStatus
     (allocations (ex_store [ex_alloc 11 1000 1100 Pending, ex_alloc 12 1030 1130 Rejected])) =
     [Pending, Rejected]"
  by (simp add: getResourceById_def getAllResources_def Resource_findById_def
        activeAllocation_def ex_room_def ex_alloc_def)

text \<open>
  C4 (as the code has it). The approval status of a stored allocation changes only through
  \<open>updateAllocationStatus\<close> called for that allocation, and only to the requested value,
  \<open>approved\<close> (when no other approved allocation of the resource overlaps) or \<open>rejected\<close>;
  no operation sets it to \<open>pending\<close>. The current status is not consulted: the change is
  made for a pending, an approved and a rejected allocation alike. \<open>createAllocation\<close>
  and the deletion or update of another allocation leave the allocation as it is, and a
  deleted allocation is gone.
\<close>

theorem approval_transitions:
  "(Allocation_findById s j = Some a \<longrightarrow>
      Allocation_findById (snd (createAllocation s now u body)) j = Some a \<and>
      (j \<noteq> i \<longrightarrow> Allocation_findById (snd (deleteAllocation s i)) j = Some a) \<and>
      (Allocation_findById (snd (updateAllocationStatus s i st)) j = Some a \<or>
       i = j \<and> st = Some ''approved'' \<and> conflicts s j a = [] \<and>
         Allocation_findById (snd (updateAllocationStatus s i st)) j =
           Some (a\<lparr>approvalStatus := Approved\<rparr>) \<or>
       i = j \<and> st = Some ''rejected'' \<and>
         Allocation_findById (snd (updateAllocationStatus s i st)) j =
           Some (a\<lparr>approvalStatus := Rejected\<rparr>)) \<and>
      (startTime a < endTime a \<and> validation_errors a = [] \<longrightarrow>
         Allocation_findById (snd (updateAllocationStatus s j (Some ''rejected''))) j =
           Some (a\<lparr>approvalStatus := Rejected\<rparr>) \<and>
         (conflicts s j a = [] \<longrightarrow>
            Allocation_findById (snd (updateAllocationStatus s j (Some ''approved''))) j =
              Some (a\<lparr>approvalStatus := Approved\<rparr>)))) \<and>
   (distinct (map aid (allocations s)) \<longrightarrow>
      Allocation_findById (snd (deleteAllocation s i)) i = None)"
proof -
  have forced: "Allocation_findById (snd (updateAllocationStatus s j (Some ''rejected''))) j =
           Some (a\<lparr>approvalStatus := Rejected\<rparr>) \<and>
         (conflicts s j a = [] \<longrightarrow>
            Allocation_findById (snd (updateAllocationStatus s j (Some ''approved''))) j =
              Some (a\<lparr>approvalStatus := Approved\<rparr>))"
    if found: "Allocation_findById s j = Some a"
      and ok: "startTime a < endTime a" "validation_errors a = []"
  proof -
    from found have a: "aid a = j" "a \<in> set (allocations s)"
      using find_aid [of j "allocations s" a] by (simp_all add: Allocation_findById_def)
    have "Allocation_findById (snd (updateAllocationStatus s j (Some ''rejected''))) j =
           Some (a\<lparr>approvalStatus := Rejected\<rparr>)"
      using updateAllocationStatus_done [of s j a "Some ''rejected''"] found ok a
      by (auto simp: Allocation_findById_def find_updateOne)
    moreover have "Allocation_findById (snd (updateAllocationStatus s j (Some ''approved''))) j =
              Some (a\<lparr>approvalStatus := Approved\<rparr>)"
      if "conflicts s j a = []"
      using updateAllocationStatus_done [of s j a "Some ''approved''"] found ok a that
      by (auto simp: Allocation_findById_def find_updateOne)
    ultimately show ?thesis by blast
  qed
  from forced findById_after_update [of s j a i st] findById_after_create [of s j a now u body]
    findById_after_delete [of j i s] findById_deleted [of s i]
  show ?thesis by (intro conjI impI) simp_all
qed

theorem approval_transitions_witness:
  "Allocation_findById (ex_store [ex_alloc 11 1000 1100 Pending]) 11 =
     Some (ex_alloc 11 1000 1100 Pending) \<and>
   Allocation_findById
     (snd (updateAllocationStatus (ex_store [ex_alloc 11 1000 1100 Pending]) 11 (Some ''rejected'')))
     11 = Some ((ex_alloc 11 1000 1100 Pending)\<lparr>approvalStatus := Rejected\<rparr>) \<and>
   Allocation_findById
     (snd (updateAllocationStatus (ex_store [ex_alloc 11 1000 1100 Pending]) 11 (Some ''approved'')))
     11 = Some ((ex_alloc 11 1000 1100 Pending)\<lparr>approvalStatus := Approved\<rparr>) \<and>
   Allocation_findById
     (snd (createAllocation (ex_store [ex_alloc 11 1000 1100 Pending]) 900 (Some ex_admin)
             (ex_body 5 1100 1200)))
     11 = Some (ex_alloc 11 1000 1100 Pending) \<and>
   Allocation_findById (snd (deleteAllocation (ex_store [ex_alloc 11 1000 1100 Pending]) 12)) 11 =
     Some (ex_alloc 11 1000 1100 Pending) \<and>
   Allocation_findById (snd (deleteAllocation (ex_store [ex_alloc 11 1000 1100 Pending]) 11)) 11 =
     None"
proof -
  let ?S = "ex_store [ex_alloc 11 1000 1100 Pending]"
  let ?a = "ex_alloc 11 1000 1100 Pending"
  have found: "Allocation_findById ?S 11 = Some ?a"
    by (simp add: Allocation_findById_def ex_alloc_def)
  have ok: "startTime ?a < endTime ?a \<and> validation_errors ?a = []"
    by (simp add: validation_errors_def ex_alloc_def)
  have free: "conflicts ?S 11 ?a = []"
    by (simp add: conflicts_def ex_alloc_def)
  have ids: "distinct (map aid (allocations ?S))" "(11::nat) \<noteq> 12"
    by simp_all
  from found ok free ids
    approval_transitions [of ?S 11 ?a 900 "Some ex_admin" "ex_body 5 1100 1200" 12 None]
    approval_transitions [of ?S 11 ?a 900 "Some ex_admin" "ex_body 5 1100 1200" 11 None]
  show ?thesis by simp
qed

text \<open>
  An approved allocation is rejected and a rejected one is approved on request.
\<close>

theorem approval_transitions_counterexample:
  "updateAllocationStatus (ex_store [ex_alloc 11 1000 1100 Approved]) 11 (Some ''rejected'') =
     (respond 200 True ''Allocation rejected successfully''
        (Data (ex_alloc 11 1000 1100 Rejected)),
      ex_store [ex_alloc 11 1000 1100 Rejected]) \<and>
   updateAllocationStatus (ex_store [ex_alloc 11 1000 1100 Rejected]) 11 (Some ''approved'') =
     (respond 200 True ''Allocation approved successfully''
        (Data (ex_alloc 11 1000 1100 Approved)),
      ex_store [ex_alloc 11 1000 1100 Approved])"
  by (simp add: updateAllocationStatus_def Allocation_findById_def conflicts_def save_checks_def
        validation_errors_def pre_save_def ex_store_def ex_alloc_def Let_def)

text \<open>
  C5. A conflict on approval is answered with 409 and a message only: the reply carries no
  list of the colliding allocations, although the query found one. \<open>createAllocation\<close>
  answers the same collision with 409 and the list (assignee, interval and purpose of
  each colliding allocation).
\<close>

theorem approve_conflict_reply_without_list:
  "conflicts (ex_store [ex_alloc 11 1000 1100 Pending, ex_alloc 12 1030 1130 Approved]) 11
     (ex_alloc 11 1000 1100 Pending) = [ex_alloc 12 1030 1130 Approved] \<and>
   updateAllocationStatus
     (ex_store [ex_alloc 11 1000 1100 Pending, ex_alloc 12 1030 1130 Approved])
     11 (Some ''approved'') =
     (\<lparr>status_code = 409, success = False,
       message = ''Cannot approve - conflicts with existing approved allocation'',
       payload = NoPayload\<rparr>,
      ex_store [ex_alloc 11 1000 1100 Pending, ex_alloc 12 1030 1130 Approved]) \<and>
   createAllocation
     (ex_store [ex_alloc 11 1000 1100 Pending, ex_alloc 12 1030 1130 Approved])
     900 (Some ex_user) (ex_body 5 1000 1100) =
     (\<lparr>status_code = 409, success = False,
       message = ''Resource already allocated in this time range'',
       payload = ConflictDetails ''Room A''
                   [\<lparr>o_assignedTo = ''Alice'', o_startTime = 1030, o_endTime = 1130,
                     o_purpose = ''Standup''\<rparr>]\<rparr>,
      ex_store [ex_alloc 11 1000 1100 Pending, ex_alloc 12 1030 1130 Approved])"
  by (simp add: updateAllocationStatus_def createAllocation_def Allocation_findById_def
        Resource_findById_def conflicts_def conflictingAllocations_def occupant_of_def
        respond_def ex_room_def ex_alloc_def ex_body_def Let_def)

text \<open>
  C6. The time status of an allocation is one of Upcoming, Active and Completed, and depends
  on nothing but the two ends of the allocation and the clock reading. Before the start it
  is Upcoming, between the two ends it is Active. For an allocation that ends after it
  starts, as every stored one does, both ends are inclusive (at the start and at the end it
  is Active) and after the end it is Completed. The rows of \<open>getAllAllocations\<close> carry
  this status for every stored allocation.
\<close>

theorem timeStatus_total_inclusive:
  "timeStatus now a \<in> {Upcoming, Active, Completed} \<and>
   (startTime a = startTime b \<and> endTime a = endTime b \<longrightarrow> timeStatus now a = timeStatus now b) \<and>
   (now < startTime a \<longrightarrow> timeStatus now a = Upcoming) \<and>
   (startTime a \<le> now \<and> now \<le> endTime a \<longrightarrow> timeStatus now a = Active) \<and>
   (startTime a < endTime a \<longrightarrow>
      (now = startTime a \<longrightarrow> timeStatus now a = Active) \<and>
      (now = endTime a \<longrightarrow> timeStatus now a = Active) \<and>
      (now > endTime a \<longrightarrow> timeStatus now a = Completed)) \<and>
   (\<forall>row \<in> set (getAllAllocations s now). snd row = timeStatus now (fst row)) \<and>
   fst ` set (getAllAllocations s now) = set (allocations s)"
proof -
  have "fst ` set (getAllAllocations s now) = set (allocations s)"
    by (simp add: getAllAllocations_def image_image)
  moreover have "\<forall>row \<in> set (getAllAllocations s now). snd row = timeStatus now (fst row)"
    by (auto simp: getAllAllocations_def timeStatus_def)
  moreover have "timeStatus now a \<in> {Upcoming, Active, Completed}"
    by (cases "timeStatus now a") simp_all
  ultimately show ?thesis
    by (simp add: timeStatus_def)
qed

theorem timeStatus_total_inclusive_witness:
  "timeStatus 1000 (ex_alloc 11 1000 1100 Pending) = Active \<and>
   timeStatus 1100 (ex_alloc 11 1000 1100 Pending) = Active \<and>
   timeStatus 1101 (ex_alloc 11 1000 1100 Pending) = Completed \<and>
   timeStatus 999 (ex_alloc 11 1000 1100 Pending) = Upcoming \<and>
   timeStatus 1000 (ex_alloc 11 1000 1100 Pending) = timeStatus 1000 (ex_alloc 12 1000 1100 Approved) \<and>
   getAllAllocations (ex_store [ex_alloc 11 1000 1100 Pending]) 1050 =
     [(ex_alloc 11 1000 1100 Pending, Active)]"
  using timeStatus_total_inclusive
          [of 1000 "ex_alloc 11 1000 1100 Pending" "ex_alloc 12 1000 1100 Approved"
              "ex_store [ex_alloc 11 1000 1100 Pending]"]
        timeStatus_total_inclusive
          [of 1100 "ex_alloc 11 1000 1100 Pending" "ex_alloc 12 1000 1100 Approved"
              "ex_store [ex_alloc 11 1000 1100 Pending]"]
        timeStatus_total_inclusive
          [of 1101 "ex_alloc 11 1000 1100 Pending" "ex_alloc 12 1000 1100 Approved"
              "ex_store [ex_alloc 11 1000 1100 Pending]"]
        timeStatus_total_inclusive
          [of 999 "ex_alloc 11 1000 1100 Pending" "ex_alloc 12 1000 1100 Approved"
              "ex_store [ex_alloc 11 1000 1100 Pending]"]
  by (simp add: ex_defs getAllAllocations_def timeStatus_def)

text \<open>
  C7. For a request that carries all four required fields, \<open>createAllocation\<close> checks, in
  this order and before it looks for overlaps: an end that is not after the start is
  answered with 400 "End time must be after start time"; otherwise a start before the
  clock reading with 400 "Start time cannot be in the past", whatever the resource and
  the stored allocations are; otherwise a resource identifier that no resource has with
  404 "Resource not found". The three answers differ, and whenever the answer is not 201
  the store is unchanged.
\<close>

theorem createAllocation_preconditions:
  "(b_resourceId body = Some r \<and> b_assignedTo body = Some who \<and> who \<noteq> [] \<and>
    b_startTime body = Some st \<and> b_endTime body = Some e \<longrightarrow>
      (e \<le> st \<longrightarrow>
         createAllocation s now u body =
           (respond 400 False ''End time must be after start time'' NoPayload, s)) \<and>
      (st < e \<and> st < now \<longrightarrow>
         createAllocation s now u body =
           (respond 400 False ''Start time cannot be in the past'' NoPayload, s)) \<and>
      (st < e \<and> now \<le> st \<and> Resource_findById s r = None \<longrightarrow>
         createAllocation s now u body =
           (respond 404 False ''Resource not found'' NoPayload, s))) \<and>
   (status_code (fst (createAllocation s now u body)) \<noteq> 201 \<longrightarrow>
      snd (createAllocation s now u body) = s) \<and>
   respond 400 False ''End time must be after start time'' NoPayload \<noteq>
     respond 400 False ''Start time cannot be in the past'' NoPayload \<and>
   respond 400 False ''End time must be after start time'' NoPayload \<noteq>
     respond 404 False ''Resource not found'' NoPayload \<and>
   respond 400 False ''Start time cannot be in the past'' NoPayload \<noteq>
     respond 404 False ''Resource not found'' NoPayload"
proof -
  have "status_code (fst (createAllocation s now u body)) \<noteq> 201 \<longrightarrow>
        snd (createAllocation s now u body) = s"
    using createAllocation_rejected by blast
  moreover have "b_resourceId body = Some r \<and> b_assignedTo body = Some who \<and> who \<noteq> [] \<and>
    b_startTime body = Some st \<and> b_endTime body = Some e \<longrightarrow>
      (e \<le> st \<longrightarrow>
         createAllocation s now u body =
           (respond 400 False ''End time must be after start time'' NoPayload, s)) \<and>
      (st < e \<and> st < now \<longrightarrow>
         createAllocation s now u body =
           (respond 400 False ''Start time cannot be in the past'' NoPayload, s)) \<and>
      (st < e \<and> now \<le> st \<and> Resource_findById s r = None \<longrightarrow>
         createAllocation s now u body =
           (respond 404 False ''Resource not found'' NoPayload, s))"
    by (simp add: createAllocation_def Let_def)
  moreover have "respond 400 False ''End time must be after start time'' NoPayload \<noteq>
     respond 400 False ''Start time cannot be in the past'' NoPayload"
    by (simp add: respond_def)
  moreover have "respond 400 False ''End time must be after start time'' NoPayload \<noteq>
     respond 404 False ''Resource not found'' NoPayload"
    by (simp add: respond_def)
  moreover have "respond 400 False ''Start time cannot be in the past'' NoPayload \<noteq>
     respond 404 False ''Resource not found'' NoPayload"
    by (simp add: respond_def)
  ultimately show ?thesis by blast
qed

theorem createAllocation_preconditions_witness:
  "createAllocation (ex_store [ex_alloc 11 1000 1100 Approved]) 900 (Some ex_user) (ex_body 5 1100 1000) =
     (respond 400 False ''End time must be after start time'' NoPayload,
      ex_store [ex_alloc 11 1000 1100 Approved]) \<and>
   createAllocation (ex_store [ex_alloc 11 1000 1100 Approved]) 900 (Some ex_user) (ex_body 6 899 1100) =
     (respond 400 False ''Start time cannot be in the past'' NoPayload,
      ex_store [ex_alloc 11 1000 1100 Approved]) \<and>
   createAllocation (ex_store [ex_alloc 11 1000 1100 Approved]) 900 (Some ex_user) (ex_body 6 1000 1100) =
     (respond 404 False ''Resource not found'' NoPayload,
      ex_store [ex_alloc 11 1000 1100 Approved]) \<and>
   snd (createAllocation (ex_store [ex_alloc 11 1000 1100 Approved]) 900 (Some ex_user)
          (ex_body 5 1030 1130)) =
     ex_store [ex_alloc 11 1000 1100 Approved]"
  using createAllocation_preconditions
          [of "ex_body 5 1100 1000" 5 "''Bob''" 1100 1000
              "ex_store [ex_alloc 11 1000 1100 Approved]" 900 "Some ex_user"]
        createAllocation_preconditions
          [of "ex_body 6 899 1100" 6 "''Bob''" 899 1100
              "ex_store [ex_alloc 11 1000 1100 Approved]" 900 "Some ex_user"]
        createAllocation_preconditions
          [of "ex_body 6 1000 1100" 6 "''Bob''" 1000 1100
              "ex_store [ex_alloc 11 1000 1100 Approved]" 900 "Some ex_user"]
        createAllocation_preconditions
          [of "ex_body 5 1030 1130" 5 "''Bob''" 1030 1130
              "ex_store [ex_alloc 11 1000 1100 Approved]" 900 "Some ex_user"]
  by (simp add: ex_defs eval_defs)

text \<open>
  C8. A created allocation is stored as approved when the creating user is a Super User and
  as pending otherwise (also when the request has no user); the document is written once,
  with that status.
\<close>

theorem createAllocation_status_by_role:
  "status_code (fst (createAllocation s now u body)) = 201 \<Longrightarrow>
   (\<exists>d. payload (fst (createAllocation s now u body)) = Data d \<and>
        allocations (snd (createAllocation s now u body)) = allocations s @ [d] \<and>
        approvalStatus d = (if isAdmin u then Approved else Pending)) \<and>
   (isAdmin u \<longleftrightarrow> (\<exists>usr. u = Some usr \<and> urole usr = SuperUser))"
proof -
  assume ok: "status_code (fst (createAllocation s now u body)) = 201"
  have "isAdmin u \<longleftrightarrow> (\<exists>usr. u = Some usr \<and> urole usr = SuperUser)"
    by (cases u) (simp_all add: isAdmin_def)
  moreover have "payload (fst (createAllocation s now u body)) = Data (newAllocation s now u body)"
    and "allocations (snd (createAllocation s now u body)) =
         allocations s @ [newAllocation s now u body]"
    using createAllocation_created(1) [OF ok] by simp_all
  ultimately show ?thesis by (intro conjI exI [of _ "newAllocation s now u body"]) simp_all
qed

theorem createAllocation_status_by_role_witness:
  "status_code (fst (createAllocation (ex_store []) 900 (Some ex_admin) (ex_body 5 1000 1100))) = 201 \<and>
   map approvalStatus
     (allocations (snd (createAllocation (ex_store []) 900 (Some ex_admin) (ex_body 5 1000 1100)))) =
     [Approved] \<and>
   status_code (fst (createAllocation (ex_store []) 900 (Some ex_user) (ex_body 5 1000 1100))) = 201 \<and>
   map approvalStatus
     (allocations (snd (createAllocation (ex_store []) 900 (Some ex_user) (ex_body 5 1000 1100)))) =
     [Pending]"
  using createAllocation_status_by_role
          [of "ex_store []" 900 "Some ex_admin" "ex_body 5 1000 1100"]
        createAllocation_status_by_role
          [of "ex_store []" 900 "Some ex_user" "ex_body 5 1000 1100"]
  by (simp add: ex_create_admin ex_create_user)

text \<open>
  C9. Every operation of the allocation controller keeps the collection free of
  allocations that do not end after they start. A creation request whose end is not after
  its start is answered with 400 and leaves the store as it was, the document a
  successful creation stores ends after it starts, and \<open>save()\<close> refuses every document
  that does not.
\<close>

theorem valid_ranges_preserved:
  "(valid_ranges (allocations s) \<longrightarrow>
      valid_ranges (allocations (snd (createAllocation s now u body))) \<and>
      valid_ranges (allocations (snd (updateAllocationStatus s i st))) \<and>
      valid_ranges (allocations (snd (deleteAllocation s i)))) \<and>
   (b_startTime body = Some t0 \<and> b_endTime body = Some t1 \<and> t1 \<le> t0 \<longrightarrow>
      status_code (fst (createAllocation s now u body)) = 400 \<and>
      snd (createAllocation s now u body) = s) \<and>
   (status_code (fst (createAllocation s now u body)) = 201 \<longrightarrow>
      startTime (newAllocation s now u body) < endTime (newAllocation s now u body)) \<and>
   (endTime d \<le> startTime d \<longrightarrow> save_checks d \<noteq> None)"
proof -
  have create: "valid_ranges (allocations (snd (createAllocation s now u body)))"
    if inv: "valid_ranges (allocations s)"
  proof (cases "status_code (fst (createAllocation s now u body)) = 201")
    case True
    from createAllocation_created(2) [OF True]
    have "startTime (newAllocation s now u body) < endTime (newAllocation s now u body)"
      by simp
    with inv True show ?thesis
      by (simp add: createAllocation_store valid_ranges_def)
  next
    case False
    with inv show ?thesis by (simp add: createAllocation_store)
  qed
  have update: "valid_ranges (allocations (snd (updateAllocationStatus s i st)))"
    if inv: "valid_ranges (allocations s)"
    using updateAllocationStatus_cases0 [of s i st]
  proof
    assume "snd (updateAllocationStatus s i st) = s"
    with inv show ?thesis by simp
  next
    assume "\<exists>a. Allocation_findById s i = Some a \<and>
        (st = Some ''approved'' \<or> st = Some ''rejected'') \<and>
        (st = Some ''approved'' \<longrightarrow> conflicts s i a = []) \<and>
        startTime a < endTime a \<and>
        snd (updateAllocationStatus s i st) =
          s\<lparr>allocations :=
               updateOne (a\<lparr>approvalStatus :=
                              (if st = Some ''approved'' then Approved else Rejected)\<rparr>)
                         (allocations s)\<rparr>"
    then obtain a where a: "startTime a < endTime a"
      and s': "snd (updateAllocationStatus s i st) =
          s\<lparr>allocations :=
               updateOne (a\<lparr>approvalStatus :=
                              (if st = Some ''approved'' then Approved else Rejected)\<rparr>)
                         (allocations s)\<rparr>"
      by blast
    from inv a show ?thesis
      unfolding s' by (simp add: valid_ranges_updateOne)
  qed
  have delete: "valid_ranges (allocations (snd (deleteAllocation s i)))"
    if inv: "valid_ranges (allocations s)"
    using inv by (simp add: deleteAllocation_store valid_ranges_deleteOne)
  have created: "status_code (fst (createAllocation s now u body)) = 201 \<longrightarrow>
      startTime (newAllocation s now u body) < endTime (newAllocation s now u body)"
    using createAllocation_created(2) [of s now u body] by simp
  have hook: "endTime d \<le> startTime d \<longrightarrow> save_checks d \<noteq> None"
    by (simp add: save_checks_None)
  from create update delete created hook createAllocation_bad_range [of body t0 t1 s now u]
  show ?thesis by blast
qed

theorem valid_ranges_preserved_witness:
  "valid_ranges (allocations (ex_store [ex_alloc 11 1000 1100 Pending])) \<and>
   valid_ranges (allocations (snd (createAllocation (ex_store [ex_alloc 11 1000 1100 Pending]) 900
                                     (Some ex_user) (ex_body 5 1200 1100)))) \<and>
   valid_ranges (allocations (snd (updateAllocationStatus (ex_store [ex_alloc 11 1000 1100 Pending])
                                     11 (Some ''approved'')))) \<and>
   valid_ranges (allocations (snd (deleteAllocation (ex_store [ex_alloc 11 1000 1100 Pending]) 11))) \<and>
   snd (createAllocation (ex_store [ex_alloc 11 1000 1100 Pending]) 900 (Some ex_user)
          (ex_body 5 1200 1100)) = ex_store [ex_alloc 11 1000 1100 Pending] \<and>
   status_code (fst (createAllocation (ex_store [ex_alloc 11 1000 1100 Pending]) 900 (Some ex_user)
          (ex_body 5 1200 1100))) = 400 \<and>
   save_checks (ex_alloc 11 1100 1100 Pending) \<noteq> None"
  using valid_ranges_preserved
          [of "ex_store [ex_alloc 11 1000 1100 Pending]" 900 "Some ex_user" "ex_body 5 1200 1100"
              11 "Some ''approved''" 1200 1100 "ex_alloc 11 1100 1100 Pending"]
  by (simp add: ex_defs valid_ranges_def)

text \<open>
  C10. When the status in the body is neither \<open>approved\<close> nor \<open>rejected\<close> (or is missing),
  \<open>updateAllocationStatus\<close> answers 400 whatever the identifier and the store are, and
  the store is unchanged.
\<close>

theorem updateAllocationStatus_invalid_status:
  "status \<noteq> Some ''approved'' \<Longrightarrow> status \<noteq> Some ''rejected'' \<Longrightarrow>
   updateAllocationStatus s i status =
     (respond 400 False ''Status must be \"approved\" or \"rejected\"'' NoPayload, s)"
  by (simp add: updateAllocationStatus_def)

theorem updateAllocationStatus_invalid_status_witness:
  "Some ''pending'' \<noteq> Some ''approved'' \<and> Some ''pending'' \<noteq> Some ''rejected'' \<and>
   updateAllocationStatus (ex_store [ex_alloc 11 1000 1100 Approved]) 11 (Some ''pending'') =
     (respond 400 False ''Status must be \"approved\" or \"rejected\"'' NoPayload,
      ex_store [ex_alloc 11 1000 1100 Approved]) \<and>
   updateAllocationStatus (ex_store [ex_alloc 11 1000 1100 Approved]) 5 None =
     (respond 400 False ''Status must be \"approved\" or \"rejected\"'' NoPayload,
      ex_store [ex_alloc 11 1000 1100 Approved])"
  using updateAllocationStatus_invalid_status
          [of "Some ''pending''" "ex_store [ex_alloc 11 1000 1100 Approved]" 11]
        updateAllocationStatus_invalid_status
          [of None "ex_store [ex_alloc 11 1000 1100 Approved]" 5]
  by simp

end
